theory Spec2Isabelle
  imports Complex_Main "HOL-Library.Sublist"
begin

section \<open>The trainer of points-shape-detect (Module/trainer.py)\<close>

text \<open>
  The training orchestrator is a Python class whose methods mutate the trainer object,
  the file system (checkpoints) and a TensorBoard stream. The embedding passes the
  trainer and the outside world explicitly: every method takes the pair of both and
  returns its outcome (a raised error or the returned value) together with the pair as
  the method left it. Tensors carry real numbers; the rounding of floating-point
  arithmetic is not part of the model.
\<close>

subsection \<open>Values\<close>

datatype error = AttributeError | RuntimeError | UnpicklingError | FileNotFoundError

text \<open>\<^verbatim>\<open>self.loss_min\<close> starts as \<^verbatim>\<open>float('inf')\<close> and later holds an aggregate loss.\<close>

datatype pyfloat = Fin real | PosInf

text \<open>The comparison \<^verbatim>\<open>loss_sum_float < self.loss_min\<close>.\<close>

fun float_less :: "real \<Rightarrow> pyfloat \<Rightarrow> bool" where
  "float_less x PosInf = True"
| "float_less x (Fin y) = (x < y)"

text \<open>A value handed to \<^verbatim>\<open>add_scalar\<close>; the mean of an empty tensor is not a number.\<close>

datatype scalar = Num real | NaN

text \<open>A tensor: its shape and its elements in row-major order.\<close>

record tensor =
  shape :: "nat list"
  elems :: "real list"

text \<open>
  The optimizer as far as the trainer reads it: \<^verbatim>\<open>state_dict()['param_groups'][0]['lr']\<close>
  and the rest of the state, which only AdamW itself interprets.
\<close>

record 'o optim =
  opt_state :: 'o
  opt_lr :: real

text \<open>The dictionary \<^verbatim>\<open>model_dict\<close> that saveModel serialises and loadModel reads.\<close>

record ('m, 'o) model_dict =
  md_model :: 'm
  md_optimizer :: "'o optim"
  md_step :: int
  md_loss_min :: pyfloat
  md_log_folder_name :: string

text \<open>
  What a checkpoint path holds: a file that \<^verbatim>\<open>torch.save\<close> finished, or one that it had
  opened and not finished when the process stopped.
\<close>

datatype ('m, 'o) pth = Truncated | Complete "('m, 'o) model_dict"

text \<open>The calls that reach the file system, in the order they were made.\<close>

datatype fs_op = CreateFileFolder string | Save string | Remove string | Rename string string

text \<open>
  The world outside the trainer: the regular files under their paths, the history of
  file-system calls, the log directories for which a SummaryWriter was opened, and the
  scalars written so far as (log directory, tag, value, global step).
\<close>

record ('m, 'o) world =
  files :: "string \<rightharpoonup> ('m, 'o) pth"
  fs_ops :: "fs_op list"
  opened_logs :: "string list"
  scalars :: "(string \<times> string \<times> scalar \<times> int) list"

text \<open>
  The fields of \<^verbatim>\<open>Trainer\<close>. \<^verbatim>\<open>model\<close> is the state dict of the network and
  \<^verbatim>\<open>model_bn_momentum\<close> the momentum of its batch-norm layers, which is an attribute of
  the layers and not part of the state dict. \<^verbatim>\<open>scheduler_last_epoch\<close> and
  \<^verbatim>\<open>bn_scheduler_last_epoch\<close> are the epoch counters of the two schedulers, and
  \<^verbatim>\<open>summary_writer\<close> is \<^verbatim>\<open>None\<close> or the writer on a log directory.
\<close>

record ('m, 'o) trainer =
  model :: 'm
  model_bn_momentum :: real
  lr :: real
  weight_decay :: real
  decay_step :: int
  lr_decay :: real
  lowest_decay :: real
  bn_decay_step :: int
  bn_decay :: real
  bn_momentum :: real
  bn_lowest_decay :: real
  step :: int
  loss_min :: pyfloat
  log_folder_name :: string
  optimizer :: "'o optim"
  scheduler_last_epoch :: int
  bn_scheduler_last_epoch :: int
  summary_writer :: "string option"

subsection \<open>The schedules\<close>

text \<open>
  \<^verbatim>\<open>lr_lambda = lambda e: max(self.lr_decay ** (e / self.decay_step), self.lowest_decay)\<close>
  and
  \<^verbatim>\<open>bnm_lambda = lambda e: max(self.bn_momentum * self.bn_decay ** (e / self.bn_decay_step), self.bn_lowest_decay)\<close>.
  Both read the fields of the trainer when they are called. The bases are positive in
  every trainer the constructor builds, where Python's power on floats is \<open>powr\<close>.
\<close>

definition lr_lambda :: "('m, 'o) trainer \<Rightarrow> int \<Rightarrow> real" where
  "lr_lambda t e = max (lr_decay t powr (real_of_int e / real_of_int (decay_step t))) (lowest_decay t)"

definition bnm_lambda :: "('m, 'o) trainer \<Rightarrow> int \<Rightarrow> real" where
  "bnm_lambda t e =
     max (bn_momentum t * bn_decay t powr (real_of_int e / real_of_int (bn_decay_step t)))
         (bn_lowest_decay t)"

subsection \<open>Construction\<close>


text \<open>
  Modelled from the spec: \<^verbatim>\<open>BNMomentumScheduler\<close> (Scheduler/bn_momentum.py) is missing
  from the sources. It is a "pure function of epoch index" whose value is applied to the
  model; when it is built the model gets the momentum of epoch 0.
\<close>

definition bn_scheduler_init :: "('m, 'o) trainer \<Rightarrow> ('m, 'o) trainer" where
  "bn_scheduler_init t = t \<lparr> bn_scheduler_last_epoch := 0, model_bn_momentum := bnm_lambda t 0 \<rparr>"

text \<open>
  \<^verbatim>\<open>Trainer.__init__\<close>. The network, the fresh AdamW state and the string returned by
  \<^verbatim>\<open>getCurrentTime()\<close> come from collaborators and are parameters. The fields are
  assigned first (a new batch-norm layer of torch has momentum 0.1). \<^verbatim>\<open>LambdaLR\<close> takes
  its first step when it is built: its counter is 0 and the learning rate is the base
  rate times \<^verbatim>\<open>lr_lambda(0)\<close>.
\<close>

definition init_fields :: "'m \<Rightarrow> 'o \<Rightarrow> string \<Rightarrow> ('m, 'o) trainer" where
  "init_fields net opt0 now =
     \<lparr> model = net, model_bn_momentum = 1 / 10,
       lr = 5 / 10000, weight_decay = 5 / 10000,
       decay_step = 21, lr_decay = 76 / 100, lowest_decay = 2 / 100,
       bn_decay_step = 21, bn_decay = 5 / 10, bn_momentum = 9 / 10, bn_lowest_decay = 1 / 100,
       step = 0, loss_min = PosInf, log_folder_name = now,
       optimizer = \<lparr> opt_state = opt0, opt_lr = 5 / 10000 \<rparr>,
       scheduler_last_epoch = 0, bn_scheduler_last_epoch = 0,
       summary_writer = None \<rparr>"

definition init :: "'m \<Rightarrow> 'o \<Rightarrow> string \<Rightarrow> ('m, 'o) trainer" where
  "init net opt0 now =
     (let t = init_fields net opt0 now
      in bn_scheduler_init (t \<lparr> optimizer := (optimizer t) \<lparr> opt_lr := lr t * lr_lambda t 0 \<rparr> \<rparr>))"

subsection \<open>Paths and files\<close>

text \<open>\<^verbatim>\<open>s.split(sep)[0]\<close> for a non-empty separator: the part of s before the first sep.\<close>

fun split_head :: "string \<Rightarrow> string \<Rightarrow> string" where
  "split_head sep [] = []"
| "split_head sep (c # cs) = (if prefix sep (c # cs) then [] else c # split_head sep cs)"

text \<open>\<^verbatim>\<open>save_model_file_path.split(".pth")[0] + "_tmp.pth"\<close>\<close>

definition tmp_path :: "string \<Rightarrow> string" where
  "tmp_path p = split_head ''.pth'' p @ ''_tmp.pth''"

text \<open>\<^verbatim>\<open>os.path.exists\<close> on the regular files of the world.\<close>

definition path_exists :: "('m, 'o) world \<Rightarrow> string \<Rightarrow> bool" where
  "path_exists w p = (files w p \<noteq> None)"

text \<open>
  Modelled from the spec: \<^verbatim>\<open>createFileFolder\<close> (Method/path.py) is missing from the
  sources. It makes the folder of a file path and touches no file, so in a world of
  regular files only the call itself is recorded.
\<close>

definition createFileFolder :: "string \<Rightarrow> ('m, 'o) world \<Rightarrow> ('m, 'o) world" where
  "createFileFolder p w = w \<lparr> fs_ops := fs_ops w @ [CreateFileFolder p] \<rparr>"

text \<open>
  Modelled from the spec: \<^verbatim>\<open>removeFile\<close> (Method/path.py) is missing from the sources.
  It "deletes any pre-existing file at the destination path".
\<close>

definition removeFile :: "string \<Rightarrow> ('m, 'o) world \<Rightarrow> ('m, 'o) world" where
  "removeFile p w = w \<lparr> files := (files w)(p := None), fs_ops := fs_ops w @ [Remove p] \<rparr>"

text \<open>
  Modelled from the spec: \<^verbatim>\<open>renameFile\<close> (Method/path.py) is missing from the sources.
  It "renames the temporary file into place": the content moves from the source path to
  the target path. A source that does not exist is an error.
\<close>

definition renameFile :: "string \<Rightarrow> string \<Rightarrow> ('m, 'o) world \<Rightarrow> error + ('m, 'o) world" where
  "renameFile src dst w =
     (case files w src of
        None \<Rightarrow> Inl FileNotFoundError
      | Some c \<Rightarrow> Inr (w \<lparr> files := ((files w)(src := None))(dst \<mapsto> c),
                          fs_ops := fs_ops w @ [Rename src dst] \<rparr>))"

text \<open>
  \<^verbatim>\<open>torch.save(obj, path)\<close> opens the file for writing, which empties it, and then
  writes the archive; a process that stops in between leaves the truncated file.
\<close>

definition torch_save_open :: "string \<Rightarrow> ('m, 'o) world \<Rightarrow> ('m, 'o) world" where
  "torch_save_open p w = w \<lparr> files := (files w)(p \<mapsto> Truncated) \<rparr>"

definition torch_save_write ::
  "('m, 'o) model_dict \<Rightarrow> string \<Rightarrow> ('m, 'o) world \<Rightarrow> ('m, 'o) world" where
  "torch_save_write d p w =
     w \<lparr> files := (files w)(p \<mapsto> Complete d), fs_ops := fs_ops w @ [Save p] \<rparr>"

definition torch_save ::
  "('m, 'o) model_dict \<Rightarrow> string \<Rightarrow> ('m, 'o) world \<Rightarrow> ('m, 'o) world" where
  "torch_save d p w = torch_save_write d p (torch_save_open p w)"

text \<open>\<^verbatim>\<open>torch.load(path)\<close> of an existing path; an unfinished archive does not unpickle.\<close>

definition torch_load :: "('m, 'o) world \<Rightarrow> string \<Rightarrow> error + ('m, 'o) model_dict" where
  "torch_load w p =
     (case files w p of
        None \<Rightarrow> Inl FileNotFoundError
      | Some Truncated \<Rightarrow> Inl UnpicklingError
      | Some (Complete d) \<Rightarrow> Inr d)"

subsection \<open>Checkpoints\<close>

definition loadSummaryWriter ::
  "('m, 'o) trainer \<times> ('m, 'o) world \<Rightarrow> ('m, 'o) trainer \<times> ('m, 'o) world" where
  "loadSummaryWriter s =
     (case s of (t, w) \<Rightarrow>
        (let d = ''./logs/'' @ log_folder_name t @ ''/''
         in (t \<lparr> summary_writer := Some d \<rparr>, w \<lparr> opened_logs := opened_logs w @ [d] \<rparr>)))"

definition loadModel ::
  "string \<Rightarrow> ('m, 'o) trainer \<times> ('m, 'o) world \<Rightarrow>
   (error + bool) \<times> ('m, 'o) trainer \<times> ('m, 'o) world" where
  "loadModel model_file_path s =
     (case s of (t, w) \<Rightarrow>
        if \<not> path_exists w model_file_path then (Inr True, loadSummaryWriter (t, w))
        else
          (case torch_load w model_file_path of
             Inl e \<Rightarrow> (Inl e, t, w)
           | Inr d \<Rightarrow>
               (Inr True,
                loadSummaryWriter
                  (t \<lparr> model := md_model d, optimizer := md_optimizer d, step := md_step d,
                       loss_min := md_loss_min d, log_folder_name := md_log_folder_name d \<rparr>,
                   w))))"

text \<open>The dictionary built in the first statement of saveModel.\<close>

definition model_dict_of :: "('m, 'o) trainer \<Rightarrow> ('m, 'o) model_dict" where
  "model_dict_of t =
     \<lparr> md_model = model t, md_optimizer = optimizer t, md_step = step t,
       md_loss_min = loss_min t, md_log_folder_name = log_folder_name t \<rparr>"

definition saveModel ::
  "string \<Rightarrow> ('m, 'o) trainer \<times> ('m, 'o) world \<Rightarrow>
   (error + bool) \<times> ('m, 'o) trainer \<times> ('m, 'o) world" where
  "saveModel save_model_file_path s =
     (case s of (t, w) \<Rightarrow>
        (let d = model_dict_of t;
             w1 = createFileFolder save_model_file_path w;
             tmp = tmp_path save_model_file_path;
             w2 = torch_save d tmp w1;
             w3 = removeFile save_model_file_path w2
         in case renameFile tmp save_model_file_path w3 of
              Inl e \<Rightarrow> (Inl e, t, w3)
            | Inr w4 \<Rightarrow> (Inr True, t, w4)))"

text \<open>
  The worlds a process can leave behind when it stops inside saveModel: before the
  first call, and after each call that reaches the file system, \<^verbatim>\<open>torch.save\<close>
  counting twice (file opened, file written).
\<close>

definition saveModel_interrupted ::
  "string \<Rightarrow> ('m, 'o) trainer \<times> ('m, 'o) world \<Rightarrow> ('m, 'o) world list" where
  "saveModel_interrupted save_model_file_path s =
     (case s of (t, w) \<Rightarrow>
        (let d = model_dict_of t;
             w1 = createFileFolder save_model_file_path w;
             tmp = tmp_path save_model_file_path;
             w2a = torch_save_open tmp w1;
             w2 = torch_save_write d tmp w2a;
             w3 = removeFile save_model_file_path w2
         in [w, w1, w2a, w2, w3] @
            (case renameFile tmp save_model_file_path w3 of Inl e \<Rightarrow> [] | Inr w4 \<Rightarrow> [w4])))"

subsection \<open>Tensors and the logger\<close>

text \<open>\<^verbatim>\<open>loss if len(loss.shape) > 0 else loss.reshape(1)\<close>\<close>

definition reshape1 :: "tensor \<Rightarrow> tensor" where
  "reshape1 x = x \<lparr> shape := [1] \<rparr>"

definition at_least_1d :: "tensor \<Rightarrow> tensor" where
  "at_least_1d loss = (if length (shape loss) > 0 then loss else reshape1 loss)"

text \<open>
  \<^verbatim>\<open>torch.cat\<close> along dimension 0. It raises on an empty list, on a zero-dimensional
  tensor, and on tensors whose shapes differ after the first dimension; one-dimensional
  tensors of size 0 are skipped in that comparison (they hold no element).
\<close>

definition torch_cat :: "tensor list \<Rightarrow> error + tensor" where
  "torch_cat xs =
     (if xs = [] then Inl RuntimeError
      else if list_ex (\<lambda>x. shape x = []) xs then Inl RuntimeError
      else
        (case filter (\<lambda>x. shape x \<noteq> [0]) xs of
           [] \<Rightarrow> Inr \<lparr> shape = [0], elems = concat (map elems xs) \<rparr>
         | y # ys \<Rightarrow>
             if list_all (\<lambda>x. tl (shape x) = tl (shape y)) ys
             then Inr \<lparr> shape = sum_list (map (\<lambda>x. hd (shape x)) (y # ys)) # tl (shape y),
                        elems = concat (map elems xs) \<rparr>
             else Inl RuntimeError))"

definition torch_sum :: "tensor \<Rightarrow> real" where
  "torch_sum x = sum_list (elems x)"

definition torch_mean :: "tensor \<Rightarrow> scalar" where
  "torch_mean x =
     (if elems x = [] then NaN else Num (sum_list (elems x) / real (length (elems x))))"

text \<open>
  \<^verbatim>\<open>self.summary_writer.add_scalar(tag, value, step)\<close>: on \<^verbatim>\<open>None\<close> the attribute lookup
  raises and nothing is written.
\<close>

definition add_scalar ::
  "string option \<Rightarrow> string \<Rightarrow> scalar \<Rightarrow> int \<Rightarrow> ('m, 'o) world \<Rightarrow> error + ('m, 'o) world" where
  "add_scalar sw tag v n w =
     (case sw of
        None \<Rightarrow> Inl AttributeError
      | Some d \<Rightarrow> Inr (w \<lparr> scalars := scalars w @ [(d, tag, v, n)] \<rparr>))"

subsection \<open>One training step\<close>

text \<open>
  The collaborators of the trainer. \<^verbatim>\<open>forward\<close> stands for the statements of trainStep
  up to \<^verbatim>\<open>data = self.model(data)\<close>: it takes the state dict, the batch-norm momentum
  and the batch, and returns the items of \<^verbatim>\<open>data['losses']\<close> in the order of the
  dictionary together with the state dict after the pass (a pass in training mode
  updates the running statistics). \<^verbatim>\<open>backward_step\<close> stands for
  \<^verbatim>\<open>loss_sum.backward(); self.optimizer.step()\<close>: it returns the updated state dict and
  optimizer state; AdamW does not change the learning rate of its parameter group.
  \<^verbatim>\<open>dataloader\<close> gives the batches that the loader yields in an epoch.
\<close>

record ('m, 'o, 'd) collaborators =
  forward :: "'m \<Rightarrow> real \<Rightarrow> 'd \<Rightarrow> (string \<times> tensor) list \<times> 'm"
  backward_step :: "'m \<Rightarrow> 'o optim \<Rightarrow> 'd \<Rightarrow> 'm \<times> 'o"
  dataloader :: "nat \<Rightarrow> 'd list"

text \<open>\<^verbatim>\<open>torch.cat([... for loss in data['losses'].values()])\<close>\<close>

definition losses_tensor_of :: "(string \<times> tensor) list \<Rightarrow> error + tensor" where
  "losses_tensor_of losses = torch_cat (map (\<lambda>kv. at_least_1d (snd kv)) losses)"

text \<open>The loop over \<^verbatim>\<open>losses.items()\<close> that logs the mean of every term.\<close>

fun log_losses ::
  "string option \<Rightarrow> int \<Rightarrow> (string \<times> tensor) list \<Rightarrow> ('m, 'o) world \<Rightarrow> error + ('m, 'o) world" where
  "log_losses sw n [] w = Inr w"
| "log_losses sw n (kv # rest) w =
     (case add_scalar sw (''Loss/'' @ fst kv) (torch_mean (at_least_1d (snd kv))) n w of
        Inl e \<Rightarrow> Inl e
      | Inr w' \<Rightarrow> log_losses sw n rest w')"

definition best_path :: "('m, 'o) trainer \<Rightarrow> string" where
  "best_path t = ''./output/'' @ log_folder_name t @ ''/model_best.pth''"

definition last_path :: "('m, 'o) trainer \<Rightarrow> string" where
  "last_path t = ''./output/'' @ log_folder_name t @ ''/model_last.pth''"

definition trainStep ::
  "('m, 'o, 'd) collaborators \<Rightarrow> 'd \<Rightarrow> ('m, 'o) trainer \<times> ('m, 'o) world \<Rightarrow>
   (error + bool) \<times> ('m, 'o) trainer \<times> ('m, 'o) world" where
  "trainStep X data s =
     (case s of (t, w) \<Rightarrow>
      (case forward X (model t) (model_bn_momentum t) data of (losses, m1) \<Rightarrow>
       (let t1 = t \<lparr> model := m1 \<rparr> in
        (case losses_tensor_of losses of
           Inl e \<Rightarrow> (Inl e, t1, w)
         | Inr losses_tensor \<Rightarrow>
            (let loss_sum = torch_sum losses_tensor in
             (case add_scalar (summary_writer t1) ''Loss/loss_sum'' (Num loss_sum) (step t1) w of
                Inl e \<Rightarrow> (Inl e, t1, w)
              | Inr w1 \<Rightarrow>
                 (case (if float_less loss_sum (loss_min t1)
                        then saveModel (best_path t1) (t1 \<lparr> loss_min := Fin loss_sum \<rparr>, w1)
                        else (Inr True, t1, w1)) of
                    (Inl e, s2) \<Rightarrow> (Inl e, s2)
                  | (Inr b, t2, w2) \<Rightarrow>
                     (case log_losses (summary_writer t2) (step t2) losses w2 of
                        Inl e \<Rightarrow> (Inl e, t2, w2)
                      | Inr w3 \<Rightarrow>
                         (case backward_step X (model t2) (optimizer t2) data of (m', o') \<Rightarrow>
                            (Inr True,
                             t2 \<lparr> model := m', optimizer := (optimizer t2) \<lparr> opt_state := o' \<rparr> \<rparr>,
                             w3))))))))))"

subsection \<open>The epoch loop\<close>

text \<open>
  \<^verbatim>\<open>self.scheduler.step()\<close> of \<^verbatim>\<open>LambdaLR\<close>: the counter goes up by one and the learning
  rate becomes the base rate times \<^verbatim>\<open>lr_lambda\<close> of the counter.
\<close>

definition scheduler_step :: "('m, 'o) trainer \<Rightarrow> ('m, 'o) trainer" where
  "scheduler_step t =
     (let e = scheduler_last_epoch t + 1
      in t \<lparr> scheduler_last_epoch := e,
             optimizer := (optimizer t) \<lparr> opt_lr := lr t * lr_lambda t e \<rparr> \<rparr>)"

text \<open>
  Modelled from the spec: \<^verbatim>\<open>BNMomentumScheduler.step\<close> (Scheduler/bn_momentum.py) is
  missing from the sources. It "advances by one epoch" and applies the
  "batch-norm-momentum value" of that epoch to the model.
\<close>

definition bn_scheduler_step :: "('m, 'o) trainer \<Rightarrow> ('m, 'o) trainer" where
  "bn_scheduler_step t =
     (let e = bn_scheduler_last_epoch t + 1
      in t \<lparr> bn_scheduler_last_epoch := e, model_bn_momentum := bnm_lambda t e \<rparr>)"

text \<open>
  The inner loop of train:
  \<^verbatim>\<open>for data in for_data: self.trainStep(data); self.step += 1\<close>
\<close>

fun for_data ::
  "('m, 'o, 'd) collaborators \<Rightarrow> 'd list \<Rightarrow> ('m, 'o) trainer \<times> ('m, 'o) world \<Rightarrow>
   (error + bool) \<times> ('m, 'o) trainer \<times> ('m, 'o) world" where
  "for_data X [] s = (Inr True, s)"
| "for_data X (data # rest) s =
     (case trainStep X data s of
        (Inl e, s') \<Rightarrow> (Inl e, s')
      | (Inr b, t', w') \<Rightarrow> for_data X rest (t' \<lparr> step := step t' + 1 \<rparr>, w'))"

text \<open>The body of the loop over the epochs, on the batches of one epoch.\<close>

definition train_epoch ::
  "('m, 'o, 'd) collaborators \<Rightarrow> 'd list \<Rightarrow> ('m, 'o) trainer \<times> ('m, 'o) world \<Rightarrow>
   (error + bool) \<times> ('m, 'o) trainer \<times> ('m, 'o) world" where
  "train_epoch X batches s =
     (case s of (t, w) \<Rightarrow>
      (case add_scalar (summary_writer t) ''Lr/lr'' (Num (opt_lr (optimizer t))) (step t) w of
         Inl e \<Rightarrow> (Inl e, t, w)
       | Inr w1 \<Rightarrow>
          (case for_data X batches (t, w1) of
             (Inl e, s') \<Rightarrow> (Inl e, s')
           | (Inr b, t2, w2) \<Rightarrow>
              (let t3 = scheduler_step t2;
                   t4 = bn_scheduler_step t3
               in saveModel (last_path t4) (t4, w2)))))"

definition total_epoch :: nat where
  "total_epoch = 10000000"

text \<open>\<^verbatim>\<open>for epoch in range(total_epoch)\<close>, from a given epoch on.\<close>

fun train_from ::
  "('m, 'o, 'd) collaborators \<Rightarrow> nat \<Rightarrow> nat \<Rightarrow> ('m, 'o) trainer \<times> ('m, 'o) world \<Rightarrow>
   (error + bool) \<times> ('m, 'o) trainer \<times> ('m, 'o) world" where
  "train_from X 0 epoch s = (Inr True, s)"
| "train_from X (Suc n) epoch s =
     (case train_epoch X (dataloader X epoch) s of
        (Inl e, s') \<Rightarrow> (Inl e, s')
      | (Inr b, s') \<Rightarrow> train_from X n (Suc epoch) s')"

definition train ::
  "('m, 'o, 'd) collaborators \<Rightarrow> ('m, 'o) trainer \<times> ('m, 'o) world \<Rightarrow>
   (error + bool) \<times> ('m, 'o) trainer \<times> ('m, 'o) world" where
  "train X s = train_from X total_epoch 0 s"

subsection \<open>What a training step leaves alone\<close>

text \<open>
  Two trainers agree on everything the schedules and the logger depend on: the learning
  rate of the optimizer, the batch-norm momentum, the writer, the log namespace, the
  counters of both schedulers and the two schedule functions.
\<close>

definition same_schedule :: "('m, 'o) trainer \<Rightarrow> ('m, 'o) trainer \<Rightarrow> bool" where
  "same_schedule t t' =
     (opt_lr (optimizer t') = opt_lr (optimizer t) \<and> model_bn_momentum t' = model_bn_momentum t
      \<and> summary_writer t' = summary_writer t \<and> log_folder_name t' = log_folder_name t
      \<and> scheduler_last_epoch t' = scheduler_last_epoch t
      \<and> bn_scheduler_last_epoch t' = bn_scheduler_last_epoch t
      \<and> lr t' = lr t \<and> lr_lambda t' = lr_lambda t \<and> bnm_lambda t' = bnm_lambda t)"

subsection \<open>A small run\<close>

text \<open>
  Concrete inputs on which the theorems below are instantiated: a network and an
  optimizer whose states are counters, batches that are their own loss, an empty world,
  and a world that already holds a checkpoint of an earlier run.
\<close>

definition demo_trainer :: "(nat, nat) trainer" where
  "demo_trainer = init 0 0 ''run1''"

definition demo_old :: "(nat, nat) model_dict" where
  "demo_old =
     \<lparr> md_model = 7, md_optimizer = \<lparr> opt_state = 7, opt_lr = 5 / 10000 \<rparr>, md_step = 7,
       md_loss_min = Fin 2, md_log_folder_name = ''run0'' \<rparr>"

definition demo_world :: "(nat, nat) world" where
  "demo_world = \<lparr> files = Map.empty, fs_ops = [], opened_logs = [], scalars = [] \<rparr>"

definition demo_world_old :: "(nat, nat) world" where
  "demo_world_old =
     \<lparr> files = [''a.pth'' \<mapsto> Complete demo_old], fs_ops = [], opened_logs = [], scalars = [] \<rparr>"

definition demo_collab :: "(nat, nat, real) collaborators" where
  "demo_collab =
     \<lparr> forward = (\<lambda>m bnm x. ([(''loss'', \<lparr> shape = [], elems = [x] \<rparr>)], m)),
       backward_step = (\<lambda>m opt x. (Suc m, Suc (opt_state opt))),
       dataloader = (\<lambda>epoch. [5, 3, 4, 1]) \<rparr>"

definition demo_start :: "(nat, nat) trainer \<times> (nat, nat) world" where
  "demo_start = snd (loadModel ''missing.pth'' (demo_trainer, demo_world))"

definition demo_losses :: "(string \<times> tensor) list" where
  "demo_losses =
     [(''bbox'', \<lparr> shape = [], elems = [2] \<rparr>), (''points'', \<lparr> shape = [3], elems = [1, 2, 3] \<rparr>)]"

section \<open>Properties\<close>

subsection \<open>The temporary path\<close>

lemma split_head_decomp:
  "split_head sep s = s \<or> (\<exists>r. s = split_head sep s @ sep @ r)"
proof (induction s)
  case Nil
  show ?case by simp
next
  case (Cons c cs)
  show ?case
  proof (cases "prefix sep (c # cs)")
    case True
    then obtain r where r: "c # cs = sep @ r" by (auto simp: prefix_def)
    from True have "split_head sep (c # cs) = []" by simp
    with r have "c # cs = split_head sep (c # cs) @ sep @ r" by simp
    then show ?thesis by blast
  next
    case False
    from Cons.IH show ?thesis
    proof
      assume "split_head sep cs = cs"
      with False show ?thesis by simp
    next
      assume "\<exists>r. cs = split_head sep cs @ sep @ r"
      then obtain r where "cs = split_head sep cs @ sep @ r" ..
      then have "c # cs = (c # split_head sep cs) @ sep @ r" by simp
      with False show ?thesis by (metis split_head.simps(2))
    qed
  qed
qed

lemma tmp_path_neq: "tmp_path p \<noteq> p"
proof
  assume eq: "tmp_path p = p"
  from split_head_decomp [of "''.pth''" p] show False
  proof
    assume "split_head ''.pth'' p = p"
    with eq have "length (p @ ''_tmp.pth'') = length p" by (simp add: tmp_path_def)
    then show False by simp
  next
    assume "\<exists>r. p = split_head ''.pth'' p @ ''.pth'' @ r"
    then obtain r where r: "p = split_head ''.pth'' p @ ''.pth'' @ r" ..
    from eq have "split_head ''.pth'' p @ ''_tmp.pth'' = p" by (simp add: tmp_path_def)
    with r have "split_head ''.pth'' p @ ''_tmp.pth'' = split_head ''.pth'' p @ ''.pth'' @ r"
      by simp
    then have "''_tmp.pth'' = ''.pth'' @ r" by (simp only: same_append_eq)
    then show False by simp
  qed
qed

subsection \<open>saveModel returns, and what it leaves\<close>

lemma renameFile_after_save:
  "renameFile (tmp_path p) p (removeFile p (torch_save d (tmp_path p) (createFileFolder p w))) =
     Inr (w \<lparr> files := ((files w)(tmp_path p := None))(p \<mapsto> Complete d),
             fs_ops := fs_ops w @ [CreateFileFolder p, Save (tmp_path p), Remove p,
                                   Rename (tmp_path p) p] \<rparr>)"
  using tmp_path_neq [of p]
  by (auto simp: renameFile_def removeFile_def torch_save_def torch_save_write_def
      torch_save_open_def createFileFolder_def fun_upd_def intro!: world.equality)

lemma saveModel_returns:
  "saveModel p (t, w) =
     (Inr True, t,
      w \<lparr> files := ((files w)(tmp_path p := None))(p \<mapsto> Complete (model_dict_of t)),
          fs_ops := fs_ops w @ [CreateFileFolder p, Save (tmp_path p), Remove p,
                                Rename (tmp_path p) p] \<rparr>)"
  by (simp add: saveModel_def Let_def renameFile_after_save)

lemma saveModel_interrupted_eq:
  "saveModel_interrupted p (t, w) =
     [w, createFileFolder p w,
      torch_save_open (tmp_path p) (createFileFolder p w),
      torch_save (model_dict_of t) (tmp_path p) (createFileFolder p w),
      removeFile p (torch_save (model_dict_of t) (tmp_path p) (createFileFolder p w)),
      snd (snd (saveModel p (t, w)))]"
  by (simp add: saveModel_interrupted_def Let_def renameFile_after_save [unfolded torch_save_def]
      saveModel_returns torch_save_def)

lemma saveModel_interrupted_files:
  "map (\<lambda>w'. files w' p) (saveModel_interrupted p (t, w)) =
     [files w p, files w p, files w p, files w p, None, Some (Complete (model_dict_of t))]"
  using tmp_path_neq [of p]
  by (simp add: saveModel_interrupted_eq saveModel_returns createFileFolder_def torch_save_def
      torch_save_open_def torch_save_write_def removeFile_def)

lemma saveModel_interrupted_tmp_files:
  "map (\<lambda>w'. files w' (tmp_path p)) (saveModel_interrupted p (t, w)) =
     [files w (tmp_path p), files w (tmp_path p), Some Truncated,
      Some (Complete (model_dict_of t)), Some (Complete (model_dict_of t)), None]"
  using tmp_path_neq [of p]
  by (simp add: saveModel_interrupted_eq saveModel_returns createFileFolder_def torch_save_def
      torch_save_open_def torch_save_write_def removeFile_def)

subsection \<open>The schedules of a constructed trainer\<close>

lemma lr_lambda_init:
  "lr_lambda (init net opt0 now) e = max ((76 / 100) powr (real_of_int e / 21)) (2 / 100)"
  by (simp add: lr_lambda_def init_def bn_scheduler_init_def init_fields_def Let_def)

lemma bnm_lambda_init:
  "bnm_lambda (init net opt0 now) e = max (9 / 10 * (5 / 10) powr (real_of_int e / 21)) (1 / 100)"
  by (simp add: bnm_lambda_def init_def bn_scheduler_init_def init_fields_def Let_def)

lemma lr_lambda_antimono:
  assumes "e1 \<le> e2"
  shows "lr_lambda (init net opt0 now) e2 \<le> lr_lambda (init net opt0 now) e1"
proof -
  from assms have "real_of_int e1 / 21 \<le> real_of_int e2 / 21" by simp
  then have "(76 / 100 :: real) powr (real_of_int e2 / 21) \<le> (76 / 100) powr (real_of_int e1 / 21)"
    by (rule powr_mono') simp_all
  then show ?thesis unfolding lr_lambda_init by (rule max.mono) simp
qed

subsection \<open>Concatenating and summing the loss terms\<close>

lemma sum_list_concat_elems:
  "sum_list (concat (map elems xs)) = sum_list (map torch_sum xs)"
  by (induction xs) (simp_all add: torch_sum_def)

lemma torch_cat_elems: "torch_cat xs = Inr y \<Longrightarrow> elems y = concat (map elems xs)"
  by (auto simp: torch_cat_def split: if_splits list.splits)

lemma torch_sum_at_least_1d [simp]: "torch_sum (at_least_1d x) = torch_sum x"
  by (simp add: torch_sum_def at_least_1d_def reshape1_def)

lemma losses_tensor_of_sum:
  assumes "losses_tensor_of losses = Inr lt"
  shows "torch_sum lt = sum_list (map (\<lambda>kv. torch_sum (snd kv)) losses)"
proof -
  let ?xs = "map (\<lambda>kv. at_least_1d (snd kv)) losses"
  from assms have "elems lt = concat (map elems ?xs)"
    unfolding losses_tensor_of_def by (rule torch_cat_elems)
  then have "torch_sum lt = sum_list (concat (map elems ?xs))"
    by (simp only: torch_sum_def)
  also have "\<dots> = sum_list (map torch_sum ?xs)"
    by (rule sum_list_concat_elems)
  also have "\<dots> = sum_list (map (\<lambda>kv. torch_sum (snd kv)) losses)"
    by (simp add: comp_def)
  finally show ?thesis .
qed

lemma shape_at_least_1d: "shape (at_least_1d x) \<noteq> []"
  by (simp add: at_least_1d_def reshape1_def)

lemma tl_shape_at_least_1d: "length (shape x) \<le> 1 \<Longrightarrow> tl (shape (at_least_1d x)) = []"
  by (cases "shape x") (simp_all add: at_least_1d_def reshape1_def)

lemma losses_tensor_of_returns:
  assumes "losses \<noteq> []" and "\<forall>kv \<in> set losses. length (shape (snd kv)) \<le> 1"
  shows "\<exists>lt. losses_tensor_of losses = Inr lt"
proof -
  let ?xs = "map (\<lambda>kv. at_least_1d (snd kv)) losses"
  have tl: "\<forall>x \<in> set ?xs. tl (shape x) = []"
    using assms(2) by (auto simp: tl_shape_at_least_1d)
  have ne: "\<not> list_ex (\<lambda>x. shape x = []) ?xs"
    by (simp add: list_ex_iff shape_at_least_1d)
  show ?thesis
  proof (cases "filter (\<lambda>x. shape x \<noteq> [0]) ?xs")
    case Nil
    with assms(1) ne show ?thesis by (simp add: losses_tensor_of_def torch_cat_def)
  next
    case (Cons y ys)
    then have "set (y # ys) \<subseteq> set ?xs" by (metis filter_is_subset)
    with tl have "\<forall>x \<in> set (y # ys). tl (shape x) = []" by blast
    then have "list_all (\<lambda>x. tl (shape x) = tl (shape y)) ys" by (simp add: list_all_iff)
    with assms(1) ne Cons show ?thesis by (simp add: losses_tensor_of_def torch_cat_def)
  qed
qed

subsection \<open>The outcomes of a training step\<close>

lemma log_losses_Some:
  "log_losses (Some d) n losses w =
     Inr (w \<lparr> scalars := scalars w @
               map (\<lambda>kv. (d, ''Loss/'' @ fst kv, torch_mean (at_least_1d (snd kv)), n)) losses \<rparr>)"
  by (induction losses arbitrary: w) (simp_all add: add_scalar_def)

lemma trainStep_returns:
  assumes sw: "summary_writer t = Some d"
    and fw: "forward X (model t) (model_bn_momentum t) data = (losses, m1)"
    and lt: "losses_tensor_of losses = Inr lt"
  shows "trainStep X data (t, w) =
    (Inr True,
     t \<lparr> model := fst (backward_step X m1 (optimizer t) data),
         optimizer := (optimizer t) \<lparr> opt_state := snd (backward_step X m1 (optimizer t) data) \<rparr>,
         loss_min := (if float_less (torch_sum lt) (loss_min t) then Fin (torch_sum lt)
                      else loss_min t) \<rparr>,
     w \<lparr> files :=
           (if float_less (torch_sum lt) (loss_min t)
            then ((files w)(tmp_path (best_path t) := None))
                   (best_path t \<mapsto>
                      Complete (model_dict_of (t \<lparr> model := m1, loss_min := Fin (torch_sum lt) \<rparr>)))
            else files w),
         fs_ops :=
           (if float_less (torch_sum lt) (loss_min t)
            then fs_ops w @ [CreateFileFolder (best_path t), Save (tmp_path (best_path t)),
                             Remove (best_path t), Rename (tmp_path (best_path t)) (best_path t)]
            else fs_ops w),
         scalars := scalars w @ (d, ''Loss/loss_sum'', Num (torch_sum lt), step t) #
            map (\<lambda>kv. (d, ''Loss/'' @ fst kv, torch_mean (at_least_1d (snd kv)), step t)) losses \<rparr>)"
  by (simp add: trainStep_def fw lt sw add_scalar_def saveModel_returns log_losses_Some
      best_path_def Let_def case_prod_unfold)

lemma trainStep_no_writer:
  assumes sw: "summary_writer t = None"
    and fw: "forward X (model t) (model_bn_momentum t) data = (losses, m1)"
  shows "trainStep X data (t, w) =
    (Inl (case losses_tensor_of losses of Inl e \<Rightarrow> e | Inr lt \<Rightarrow> AttributeError),
     t \<lparr> model := m1 \<rparr>, w)"
  by (simp add: trainStep_def fw sw add_scalar_def Let_def split: sum.splits)

lemma trainStep_cat_error:
  assumes fw: "forward X (model t) (model_bn_momentum t) data = (losses, m1)"
    and lt: "losses_tensor_of losses = Inl e"
  shows "trainStep X data (t, w) = (Inl e, t \<lparr> model := m1 \<rparr>, w)"
  by (simp add: trainStep_def fw lt Let_def)

lemma trainStep_step: "step (fst (snd (trainStep X data (t, w)))) = step t"
proof -
  obtain losses m1 where fw: "forward X (model t) (model_bn_momentum t) data = (losses, m1)"
    by (cases "forward X (model t) (model_bn_momentum t) data")
  show ?thesis
  proof (cases "losses_tensor_of losses")
    case (Inl e)
    with fw show ?thesis by (simp add: trainStep_cat_error)
  next
    case (Inr lt)
    show ?thesis
    proof (cases "summary_writer t")
      case None
      with fw show ?thesis by (simp add: trainStep_no_writer)
    next
      case (Some d)
      with fw Inr show ?thesis by (simp add: trainStep_returns)
    qed
  qed
qed

subsection \<open>The inner loop\<close>

lemma same_schedule_refl [simp]: "same_schedule t t"
  by (simp add: same_schedule_def)

lemma same_schedule_trans: "same_schedule a b \<Longrightarrow> same_schedule b c \<Longrightarrow> same_schedule a c"
  by (simp add: same_schedule_def)

lemma trainStep_same_schedule: "same_schedule t (fst (snd (trainStep X data (t, w))))"
proof -
  obtain losses m1 where fw: "forward X (model t) (model_bn_momentum t) data = (losses, m1)"
    by (cases "forward X (model t) (model_bn_momentum t) data")
  show ?thesis
  proof (cases "losses_tensor_of losses")
    case (Inl e)
    with fw show ?thesis
      by (simp add: trainStep_cat_error same_schedule_def lr_lambda_def bnm_lambda_def fun_eq_iff)
  next
    case (Inr lt)
    show ?thesis
    proof (cases "summary_writer t")
      case None
      with fw show ?thesis
        by (simp add: trainStep_no_writer same_schedule_def lr_lambda_def bnm_lambda_def fun_eq_iff)
    next
      case (Some d)
      with fw Inr show ?thesis
        by (simp add: trainStep_returns same_schedule_def lr_lambda_def bnm_lambda_def fun_eq_iff)
    qed
  qed
qed

lemma same_schedule_step: "same_schedule t t' \<Longrightarrow> same_schedule t (t' \<lparr> step := n \<rparr>)"
  by (simp add: same_schedule_def lr_lambda_def bnm_lambda_def fun_eq_iff)

lemma for_data_same_schedule: "same_schedule t (fst (snd (for_data X ds (t, w))))"
proof (induction ds arbitrary: t w)
  case Nil
  show ?case by simp
next
  case (Cons data rest)
  obtain r t1 w1 where ts: "trainStep X data (t, w) = (r, t1, w1)"
    by (cases "trainStep X data (t, w)") auto
  have s1: "same_schedule t t1" using trainStep_same_schedule [of t X data w] ts by simp
  show ?case
  proof (cases r)
    case (Inl e)
    with ts s1 show ?thesis by simp
  next
    case (Inr b)
    have "same_schedule (t1 \<lparr> step := step t1 + 1 \<rparr>)
            (fst (snd (for_data X rest (t1 \<lparr> step := step t1 + 1 \<rparr>, w1))))"
      by (rule Cons.IH)
    with same_schedule_step [OF s1]
    have "same_schedule t (fst (snd (for_data X rest (t1 \<lparr> step := step t1 + 1 \<rparr>, w1))))"
      by (rule same_schedule_trans)
    with ts Inr show ?thesis by simp
  qed
qed

lemma for_data_step:
  "for_data X ds (t, w) = (Inr b, t', w') \<Longrightarrow> step t' = step t + int (length ds)"
proof (induction ds arbitrary: t w)
  case Nil
  then show ?case by simp
next
  case (Cons data rest)
  obtain r t1 w1 where ts: "trainStep X data (t, w) = (r, t1, w1)"
    by (cases "trainStep X data (t, w)") auto
  have s1: "step t1 = step t" using trainStep_step [of X data t w] ts by simp
  show ?case
  proof (cases r)
    case (Inl e)
    with ts Cons.prems show ?thesis by simp
  next
    case (Inr c)
    with ts Cons.prems have "for_data X rest (t1 \<lparr> step := step t1 + 1 \<rparr>, w1) = (Inr b, t', w')"
      by simp
    from Cons.IH [OF this] s1 show ?thesis by simp
  qed
qed


lemma for_data_append:
  "for_data X (xs @ ys) s =
     (case for_data X xs s of (Inl e, s') \<Rightarrow> (Inl e, s') | (Inr b, s') \<Rightarrow> for_data X ys s')"
proof (induction xs arbitrary: s)
  case Nil
  show ?case by simp
next
  case (Cons x xs)
  show ?case by (simp add: Cons.IH split: prod.splits sum.splits)
qed

lemma for_data_result: "fst (for_data X ds s) = Inr b \<Longrightarrow> b"
proof (induction ds arbitrary: s)
  case Nil
  then show ?case by simp
next
  case (Cons x xs)
  then show ?case by (auto split: prod.splits sum.splits)
qed

lemma for_data_prefix:
  assumes "fst (for_data X ds s) = Inr b" and "k \<le> length ds"
  shows "fst (for_data X (take k ds) s) = Inr True"
proof -
  have "for_data X ds s = for_data X (take k ds @ drop k ds) s" by simp
  also have "\<dots> = (case for_data X (take k ds) s of (Inl e, s') \<Rightarrow> (Inl e, s')
                    | (Inr b, s') \<Rightarrow> for_data X (drop k ds) s')"
    by (rule for_data_append)
  finally have eq: "for_data X ds s = (case for_data X (take k ds) s of (Inl e, s') \<Rightarrow> (Inl e, s')
                    | (Inr b, s') \<Rightarrow> for_data X (drop k ds) s')" .
  obtain r s' where p: "for_data X (take k ds) s = (r, s')" by (cases "for_data X (take k ds) s")
  show ?thesis
  proof (cases r)
    case (Inl e)
    with eq p assms(1) show ?thesis by simp
  next
    case (Inr c)
    with p have "fst (for_data X (take k ds) s) = Inr c" by simp
    from for_data_result [OF this] p Inr show ?thesis by simp
  qed
qed

lemma for_data_Cons_step:
  "for_data X (data # rest) (t, w) =
     (case trainStep X data (t, w) of
        (Inl e, s1) \<Rightarrow> (Inl e, s1)
      | (Inr b1, t1, w1) \<Rightarrow> for_data X rest (t1 \<lparr> step := step t + 1 \<rparr>, w1))"
proof -
  obtain r t1 w1 where ts: "trainStep X data (t, w) = (r, t1, w1)"
    by (cases "trainStep X data (t, w)") auto
  have "step t1 = step t" using trainStep_step [of X data t w] ts by simp
  with ts show ?thesis by (simp split: sum.splits)
qed

lemma for_data_raises:
  "for_data X ds (t, w) = (Inl e, t', w') \<Longrightarrow>
     \<exists>k < length ds. \<exists>tk wk. for_data X (take k ds) (t, w) = (Inr True, tk, wk)
        \<and> step tk = step t + int k
        \<and> trainStep X (ds ! k) (tk, wk) = (Inl e, t', w') \<and> step t' = step t + int k"
proof (induction ds arbitrary: t w)
  case Nil
  then show ?case by simp
next
  case (Cons data rest)
  obtain r t1 w1 where ts: "trainStep X data (t, w) = (r, t1, w1)"
    by (cases "trainStep X data (t, w)") auto
  have s1: "step t1 = step t" using trainStep_step [of X data t w] ts by simp
  show ?case
  proof (cases r)
    case (Inl e1)
    with ts Cons.prems have "trainStep X data (t, w) = (Inl e, t', w')" by simp
    moreover from this s1 ts have "step t' = step t" by simp
    ultimately have "for_data X (take 0 (data # rest)) (t, w) = (Inr True, t, w)
        \<and> step t = step t + int 0
        \<and> trainStep X ((data # rest) ! 0) (t, w) = (Inl e, t', w') \<and> step t' = step t + int 0"
      by simp
    then show ?thesis by (intro exI [of _ 0]) auto
  next
    case (Inr b1)
    with ts Cons.prems
    have "for_data X rest (t1 \<lparr> step := step t1 + 1 \<rparr>, w1) = (Inl e, t', w')" by simp
    from Cons.IH [OF this] obtain k tk wk where k: "k < length rest"
      and pre: "for_data X (take k rest) (t1 \<lparr> step := step t1 + 1 \<rparr>, w1) = (Inr True, tk, wk)"
      and sk: "step tk = step (t1 \<lparr> step := step t1 + 1 \<rparr>) + int k"
      and tsk: "trainStep X (rest ! k) (tk, wk) = (Inl e, t', w')"
      and st: "step t' = step (t1 \<lparr> step := step t1 + 1 \<rparr>) + int k"
      by blast
    from pre ts Inr have "for_data X (take (Suc k) (data # rest)) (t, w) = (Inr True, tk, wk)"
      by simp
    moreover from sk s1 have "step tk = step t + int (Suc k)" by simp
    moreover from tsk have "trainStep X ((data # rest) ! Suc k) (tk, wk) = (Inl e, t', w')" by simp
    moreover from st s1 have "step t' = step t + int (Suc k)" by simp
    moreover from k have "Suc k < length (data # rest)" by simp
    ultimately show ?thesis by blast
  qed
qed

lemma for_data_take_Suc:
  assumes k: "k < length ds" and pre: "for_data X (take k ds) (t, w) = (Inr True, tk, wk)"
  shows "step tk = step t + int k
    \<and> for_data X (take (Suc k) ds) (t, w) =
        (case trainStep X (ds ! k) (tk, wk) of
           (Inl e, s1) \<Rightarrow> (Inl e, s1)
         | (Inr b1, t1, w1) \<Rightarrow> (Inr True, t1 \<lparr> step := step tk + 1 \<rparr>, w1))"
proof -
  from for_data_step [OF pre] k have sk: "step tk = step t + int k" by simp
  from k have "take (Suc k) ds = take k ds @ [ds ! k]" by (rule take_Suc_conv_app_nth)
  then have "for_data X (take (Suc k) ds) (t, w) = for_data X [ds ! k] (tk, wk)"
    by (simp add: for_data_append pre)
  also have "\<dots> = (case trainStep X (ds ! k) (tk, wk) of
           (Inl e, s1) \<Rightarrow> (Inl e, s1)
         | (Inr b1, t1, w1) \<Rightarrow> for_data X [] (t1 \<lparr> step := step tk + 1 \<rparr>, w1))"
    by (rule for_data_Cons_step)
  finally show ?thesis using sk by (simp split: prod.splits sum.splits)
qed

lemma trainStep_returned_scalars:
  assumes "trainStep X data (t, w) = (Inr b, t1, w1)"
  shows "\<exists>ext. scalars w1 = scalars w @ ext \<and> ext \<noteq> []
     \<and> (\<lambda>e. snd (snd (snd e))) ` set ext = {step t}"
proof -
  obtain losses m1 where fw: "forward X (model t) (model_bn_momentum t) data = (losses, m1)"
    by (cases "forward X (model t) (model_bn_momentum t) data")
  show ?thesis
  proof (cases "losses_tensor_of losses")
    case (Inl e)
    with fw assms show ?thesis by (simp add: trainStep_cat_error)
  next
    case (Inr lt)
    show ?thesis
    proof (cases "summary_writer t")
      case None
      with fw assms show ?thesis by (simp add: trainStep_no_writer)
    next
      case (Some d)
      from assms have "scalars w1 = scalars w @ (d, ''Loss/loss_sum'', Num (torch_sum lt), step t) #
            map (\<lambda>kv. (d, ''Loss/'' @ fst kv, torch_mean (at_least_1d (snd kv)), step t)) losses"
        unfolding trainStep_returns [OF Some fw Inr] by auto
      moreover have "(\<lambda>e. snd (snd (snd e))) `
          set ((d, ''Loss/loss_sum'', Num (torch_sum lt), step t) #
            map (\<lambda>kv. (d, ''Loss/'' @ fst kv, torch_mean (at_least_1d (snd kv)), step t)) losses)
          = {step t}"
        by auto
      ultimately show ?thesis by blast
    qed
  qed
qed

lemma for_data_logged_steps:
  "for_data X ds (t, w) = (Inr b, t', w') \<Longrightarrow>
     \<exists>ext. scalars w' = scalars w @ ext
       \<and> (\<lambda>e. snd (snd (snd e))) ` set ext = {step t ..< step t + int (length ds)}"
proof (induction ds arbitrary: t w)
  case Nil
  then show ?case by simp
next
  case (Cons data rest)
  obtain r t1 w1 where ts: "trainStep X data (t, w) = (r, t1, w1)"
    by (cases "trainStep X data (t, w)") auto
  show ?case
  proof (cases r)
    case (Inl e1)
    with ts Cons.prems show ?thesis by simp
  next
    case (Inr b1)
    have s1: "step t1 = step t" using trainStep_step [of X data t w] ts by simp
    from ts Inr trainStep_returned_scalars [of X data t w b1 t1 w1]
    obtain ext1 where e1: "scalars w1 = scalars w @ ext1"
      "(\<lambda>e. snd (snd (snd e))) ` set ext1 = {step t}" by auto
    from ts Inr Cons.prems
    have "for_data X rest (t1 \<lparr> step := step t1 + 1 \<rparr>, w1) = (Inr b, t', w')" by simp
    from Cons.IH [OF this] s1 obtain ext2 where e2: "scalars w' = scalars w1 @ ext2"
      "(\<lambda>e. snd (snd (snd e))) ` set ext2 = {step t + 1 ..< step t + 1 + int (length rest)}"
      by auto
    from e1 e2 have "scalars w' = scalars w @ (ext1 @ ext2)" by simp
    moreover from e1 e2 have "(\<lambda>e. snd (snd (snd e))) ` set (ext1 @ ext2) =
        {step t ..< step t + int (length (data # rest))}"
      by (auto simp: image_Un)
    ultimately show ?thesis by blast
  qed
qed

subsection \<open>The epoch loop\<close>

lemma train_from_no_writer:
  assumes "summary_writer t = None" and "0 < n"
  shows "train_from X n e (t, w) = (Inl AttributeError, t, w)"
proof -
  from assms(2) obtain m where "n = Suc m" by (cases n) auto
  with assms(1) show ?thesis by (simp add: train_epoch_def add_scalar_def)
qed

lemma train_no_writer:
  "summary_writer t = None \<Longrightarrow> train X (t, w) = (Inl AttributeError, t, w)"
  by (simp add: train_def total_epoch_def train_from_no_writer)

lemma trainStep_scalars:
  "\<exists>ext. scalars (snd (snd (trainStep X data (t, w)))) = scalars w @ ext
     \<and> filter (\<lambda>e. fst (snd e) = ''Lr/lr'') ext = []"
proof -
  obtain losses m1 where fw: "forward X (model t) (model_bn_momentum t) data = (losses, m1)"
    by (cases "forward X (model t) (model_bn_momentum t) data")
  show ?thesis
  proof (cases "losses_tensor_of losses")
    case (Inl e)
    with fw show ?thesis by (simp add: trainStep_cat_error)
  next
    case (Inr lt)
    show ?thesis
    proof (cases "summary_writer t")
      case None
      with fw show ?thesis by (simp add: trainStep_no_writer)
    next
      case (Some d)
      have "filter (\<lambda>e. fst (snd e) = ''Lr/lr'')
              ((d, ''Loss/loss_sum'', Num (torch_sum lt), step t) #
               map (\<lambda>kv. (d, ''Loss/'' @ fst kv, torch_mean (at_least_1d (snd kv)), step t)) losses)
            = []"
        by (simp add: filter_empty_conv)
      then show ?thesis unfolding trainStep_returns [OF Some fw Inr] by simp
    qed
  qed
qed

lemma for_data_scalars:
  "\<exists>ext. scalars (snd (snd (for_data X ds (t, w)))) = scalars w @ ext
     \<and> filter (\<lambda>e. fst (snd e) = ''Lr/lr'') ext = []"
proof (induction ds arbitrary: t w)
  case Nil
  show ?case by simp
next
  case (Cons data rest)
  obtain r t1 w1 where ts: "trainStep X data (t, w) = (r, t1, w1)"
    by (cases "trainStep X data (t, w)") auto
  from trainStep_scalars [of X data t w] ts
  obtain ext1 where e1: "scalars w1 = scalars w @ ext1"
    "filter (\<lambda>e. fst (snd e) = ''Lr/lr'') ext1 = []" by auto
  show ?case
  proof (cases r)
    case (Inl e)
    with ts e1 show ?thesis by simp
  next
    case (Inr b)
    from Cons.IH [of "t1 \<lparr> step := step t1 + 1 \<rparr>" w1]
    obtain ext2 where e2:
      "scalars (snd (snd (for_data X rest (t1 \<lparr> step := step t1 + 1 \<rparr>, w1)))) = scalars w1 @ ext2"
      "filter (\<lambda>e. fst (snd e) = ''Lr/lr'') ext2 = []" by auto
    from e1 e2 have
      "scalars (snd (snd (for_data X rest (t1 \<lparr> step := step t1 + 1 \<rparr>, w1)))) =
         scalars w @ (ext1 @ ext2) \<and> filter (\<lambda>e. fst (snd e) = ''Lr/lr'') (ext1 @ ext2) = []"
      by simp
    with ts Inr show ?thesis by (simp del: append_assoc)
  qed
qed

lemma train_epoch_unfold:
  assumes "train_epoch X batches (t, w) = (Inr b, t', w')"
  shows "\<exists>d b2 t2 w2. summary_writer t = Some d
     \<and> for_data X batches
          (t, w \<lparr> scalars := scalars w @ [(d, ''Lr/lr'', Num (opt_lr (optimizer t)), step t)] \<rparr>) =
        (Inr b2, t2, w2)
     \<and> t' = bn_scheduler_step (scheduler_step t2)
     \<and> w' = w2 \<lparr> files := ((files w2)(tmp_path (last_path t') := None))
                            (last_path t' \<mapsto> Complete (model_dict_of t')),
                  fs_ops := fs_ops w2 @ [CreateFileFolder (last_path t'),
                     Save (tmp_path (last_path t')), Remove (last_path t'),
                     Rename (tmp_path (last_path t')) (last_path t')] \<rparr>"
  using assms
  by (auto simp: train_epoch_def add_scalar_def Let_def saveModel_returns
      split: option.splits sum.splits prod.splits)

subsection \<open>The small run\<close>

lemma demo_losses_tensor:
  "losses_tensor_of demo_losses = Inr \<lparr> shape = [4], elems = [2, 1, 2, 3] \<rparr>"
  by (simp add: losses_tensor_of_def demo_losses_def torch_cat_def at_least_1d_def reshape1_def)

lemma demo_trainStep:
  assumes "summary_writer t \<noteq> None"
  shows "trainStep demo_collab x (t, w) =
    (Inr True,
     t \<lparr> model := Suc (model t),
         optimizer := (optimizer t) \<lparr> opt_state := Suc (opt_state (optimizer t)) \<rparr>,
         loss_min := (if float_less x (loss_min t) then Fin x else loss_min t) \<rparr>,
     w \<lparr> files :=
           (if float_less x (loss_min t)
            then ((files w)(tmp_path (best_path t) := None))
                   (best_path t \<mapsto> Complete (model_dict_of (t \<lparr> loss_min := Fin x \<rparr>)))
            else files w),
         fs_ops :=
           (if float_less x (loss_min t)
            then fs_ops w @ [CreateFileFolder (best_path t), Save (tmp_path (best_path t)),
                             Remove (best_path t), Rename (tmp_path (best_path t)) (best_path t)]
            else fs_ops w),
         scalars := scalars w @
           [(the (summary_writer t), ''Loss/loss_sum'', Num x, step t),
            (the (summary_writer t), ''Loss/loss'', Num x, step t)] \<rparr>)"
proof -
  from assms obtain d where sw: "summary_writer t = Some d" by auto
  have fw: "forward demo_collab (model t) (model_bn_momentum t) x =
      ([(''loss'', \<lparr> shape = [], elems = [x] \<rparr>)], model t)"
    by (simp add: demo_collab_def)
  have lt: "losses_tensor_of [(''loss'', \<lparr> shape = [], elems = [x] \<rparr>)] =
      Inr \<lparr> shape = [1], elems = [x] \<rparr>"
    by (simp add: losses_tensor_of_def torch_cat_def at_least_1d_def reshape1_def)
  show ?thesis
    unfolding trainStep_returns [OF sw fw lt]
    by (simp add: sw torch_sum_def torch_mean_def at_least_1d_def reshape1_def demo_collab_def)
qed

lemma demo_start_eq:
  "demo_start = (demo_trainer \<lparr> summary_writer := Some ''./logs/run1/'' \<rparr>,
                 demo_world \<lparr> opened_logs := [''./logs/run1/''] \<rparr>)"
  by (simp add: demo_start_def loadModel_def path_exists_def demo_world_def loadSummaryWriter_def
      demo_trainer_def init_def bn_scheduler_init_def init_fields_def Let_def)

lemma demo_trainer_fields:
  "loss_min demo_trainer = PosInf" "step demo_trainer = 0" "log_folder_name demo_trainer = ''run1''"
  "model demo_trainer = 0" "summary_writer demo_trainer = None"
  by (simp_all add: demo_trainer_def init_def bn_scheduler_init_def init_fields_def Let_def)

lemma demo_world_fields:
  "fs_ops demo_world = []" "scalars demo_world = []" "files demo_world = Map.empty"
  by (simp_all add: demo_world_def)

lemma demo_best_ops:
  "map (\<lambda>k. fs_ops (snd (snd (for_data demo_collab (take k [5, 3, 4, 1]) demo_start))))
     [0, 1, 2, 3, 4] =
   (let B = [CreateFileFolder ''./output/run1/model_best.pth'',
             Save ''./output/run1/model_best_tmp.pth'',
             Remove ''./output/run1/model_best.pth'',
             Rename ''./output/run1/model_best_tmp.pth'' ''./output/run1/model_best.pth'']
    in [[], B, B @ B, B @ B, B @ B @ B])"
  by (simp add: demo_start_eq demo_trainStep demo_trainer_fields demo_world_fields best_path_def
      tmp_path_def Let_def)

lemma demo_best_min:
  "map (\<lambda>k. loss_min (fst (snd (for_data demo_collab (take k [5, 3, 4, 1]) demo_start))))
     [0, 1, 2, 3, 4] = [PosInf, Fin 5, Fin 3, Fin 3, Fin 1]"
  by (simp add: demo_start_eq demo_trainStep demo_trainer_fields demo_world_fields best_path_def
      tmp_path_def Let_def)

lemma demo_for_data_ok:
  "for_data demo_collab [5, 3, 4, 1] demo_start =
     (Inr True, fst (snd (for_data demo_collab [5, 3, 4, 1] demo_start)),
      snd (snd (for_data demo_collab [5, 3, 4, 1] demo_start)))"
  by (simp add: demo_start_eq demo_trainStep)

lemma demo_trainer_lr: "opt_lr (optimizer demo_trainer) = 5 / 10000"
  "scheduler_last_epoch demo_trainer = 0"
  by (simp_all add: demo_trainer_def init_def bn_scheduler_init_def init_fields_def Let_def lr_lambda_def)

lemma demo_epoch_ok:
  "train_epoch demo_collab [5, 3] (fst demo_start, snd demo_start) =
     (Inr True, fst (snd (train_epoch demo_collab [5, 3] demo_start)),
      snd (snd (train_epoch demo_collab [5, 3] demo_start)))"
  by (simp add: train_epoch_def demo_start_eq add_scalar_def demo_trainStep saveModel_returns
      Let_def)

lemma demo_for_data_scalars:
  "scalars (snd (snd (for_data demo_collab [5, 3, 4, 1] demo_start))) =
     [(''./logs/run1/'', ''Loss/loss_sum'', Num 5, 0), (''./logs/run1/'', ''Loss/loss'', Num 5, 0),
      (''./logs/run1/'', ''Loss/loss_sum'', Num 3, 1), (''./logs/run1/'', ''Loss/loss'', Num 3, 1),
      (''./logs/run1/'', ''Loss/loss_sum'', Num 4, 2), (''./logs/run1/'', ''Loss/loss'', Num 4, 2),
      (''./logs/run1/'', ''Loss/loss_sum'', Num 1, 3), (''./logs/run1/'', ''Loss/loss'', Num 1, 3)]"
  by (simp add: demo_start_eq demo_trainStep demo_trainer_fields demo_world_fields)

lemma demo_raise:
  "for_data demo_collab [5, 3] (demo_trainer, demo_world) =
     (Inl AttributeError, demo_trainer, demo_world)"
proof -
  have fw: "forward demo_collab (model demo_trainer) (model_bn_momentum demo_trainer) 5 =
      ([(''loss'', \<lparr> shape = [], elems = [5] \<rparr>)], model demo_trainer)"
    by (simp add: demo_collab_def)
  have lt: "losses_tensor_of [(''loss'', \<lparr> shape = [], elems = [5] \<rparr>)] =
      Inr \<lparr> shape = [1], elems = [5] \<rparr>"
    by (simp add: losses_tensor_of_def torch_cat_def at_least_1d_def reshape1_def)
  have "trainStep demo_collab 5 (demo_trainer, demo_world) =
      (Inl AttributeError, demo_trainer, demo_world)"
    by (simp add: trainStep_no_writer [OF _ fw] demo_trainer_fields lt)
  then show ?thesis by simp
qed

lemma demo_epoch_ops:
  "fs_ops (snd (snd (train_epoch demo_collab [5, 3] demo_start))) =
     [CreateFileFolder ''./output/run1/model_best.pth'', Save ''./output/run1/model_best_tmp.pth'',
      Remove ''./output/run1/model_best.pth'',
      Rename ''./output/run1/model_best_tmp.pth'' ''./output/run1/model_best.pth'',
      CreateFileFolder ''./output/run1/model_best.pth'', Save ''./output/run1/model_best_tmp.pth'',
      Remove ''./output/run1/model_best.pth'',
      Rename ''./output/run1/model_best_tmp.pth'' ''./output/run1/model_best.pth'',
      CreateFileFolder ''./output/run1/model_last.pth'', Save ''./output/run1/model_last_tmp.pth'',
      Remove ''./output/run1/model_last.pth'',
      Rename ''./output/run1/model_last_tmp.pth'' ''./output/run1/model_last.pth'']"
  by (simp add: train_epoch_def demo_start_eq add_scalar_def demo_trainStep saveModel_returns
      Let_def demo_trainer_fields demo_world_fields best_path_def last_path_def tmp_path_def
      bn_scheduler_step_def scheduler_step_def)

section \<open>The claims\<close>

text \<open>
  C1 (as amended). At every point where saveModel can be interrupted, the destination
  path is absent, or holds what it held before the save, or holds the complete new
  checkpoint; it is never a truncated file unless it was one before. In the order of
  the calls: the destination keeps its content until the temporary file is completely
  written, is absent between \<^verbatim>\<open>removeFile\<close> and \<^verbatim>\<open>renameFile\<close>, and holds the new
  checkpoint after the rename. The temporary path, which always differs from the
  destination, is the only one that ever holds a truncated file.
\<close>

theorem saveModel_destination_at_interruption:
  "(\<forall>w' \<in> set (saveModel_interrupted p (t, w)).
      files w' p = files w p \<or> files w' p = None \<or> files w' p = Some (Complete (model_dict_of t)))
   \<and> (files w p \<noteq> Some Truncated \<longrightarrow>
        (\<forall>w' \<in> set (saveModel_interrupted p (t, w)). files w' p \<noteq> Some Truncated))
   \<and> map (\<lambda>w'. files w' p) (saveModel_interrupted p (t, w)) =
       [files w p, files w p, files w p, files w p, None, Some (Complete (model_dict_of t))]
   \<and> map (\<lambda>w'. files w' (tmp_path p)) (saveModel_interrupted p (t, w)) =
       [files w (tmp_path p), files w (tmp_path p), Some Truncated,
        Some (Complete (model_dict_of t)), Some (Complete (model_dict_of t)), None]"
proof -
  have m: "map (\<lambda>w'. files w' p) (saveModel_interrupted p (t, w)) =
     [files w p, files w p, files w p, files w p, None, Some (Complete (model_dict_of t))]"
    by (rule saveModel_interrupted_files)
  have "\<And>w'. w' \<in> set (saveModel_interrupted p (t, w)) \<Longrightarrow>
     files w' p \<in> set (map (\<lambda>w'. files w' p) (saveModel_interrupted p (t, w)))"
    by simp
  then have mem: "\<And>w'. w' \<in> set (saveModel_interrupted p (t, w)) \<Longrightarrow>
     files w' p \<in> {files w p, None, Some (Complete (model_dict_of t))}"
    unfolding m by auto
  show ?thesis using mem m saveModel_interrupted_tmp_files [of p t w] by auto
qed

text \<open>
  An instance: saving over the existing checkpoint \<^verbatim>\<open>a.pth\<close>.
\<close>

theorem saveModel_destination_at_interruption_witness:
  "files demo_world_old ''a.pth'' \<noteq> Some Truncated
   \<and> Some Truncated \<notin>
         set (map (\<lambda>w'. files w' ''a.pth'')
                (saveModel_interrupted ''a.pth'' (demo_trainer, demo_world_old)))
   \<and> map (\<lambda>w'. files w' ''a.pth'') (saveModel_interrupted ''a.pth'' (demo_trainer, demo_world_old)) =
       [Some (Complete demo_old), Some (Complete demo_old), Some (Complete demo_old),
        Some (Complete demo_old), None, Some (Complete (model_dict_of demo_trainer))]"
  using saveModel_destination_at_interruption [of "''a.pth''" demo_trainer demo_world_old]
  by (simp add: demo_world_old_def)

text \<open>
  C1 as stated does not hold: on a later save, a process that stops after \<^verbatim>\<open>removeFile\<close>
  and before \<^verbatim>\<open>renameFile\<close> leaves no file at a destination that held the complete
  checkpoint of the previous save.
\<close>

theorem saveModel_destination_absent_counterexample:
  "files demo_world_old ''a.pth'' = Some (Complete demo_old)
   \<and> 4 < length (saveModel_interrupted ''a.pth'' (demo_trainer, demo_world_old))
   \<and> files (saveModel_interrupted ''a.pth'' (demo_trainer, demo_world_old) ! 4) ''a.pth'' = None"
proof -
  let ?L = "saveModel_interrupted ''a.pth'' (demo_trainer, demo_world_old)"
  have m: "map (\<lambda>w'. files w' ''a.pth'') ?L =
     [files demo_world_old ''a.pth'', files demo_world_old ''a.pth'',
      files demo_world_old ''a.pth'', files demo_world_old ''a.pth'', None,
      Some (Complete (model_dict_of demo_trainer))]"
    by (rule saveModel_interrupted_files)
  have len: "length ?L = 6" using arg_cong [OF m, of length] by simp
  then have "files (?L ! 4) ''a.pth'' = map (\<lambda>w'. files w' ''a.pth'') ?L ! 4" by simp
  also have "\<dots> = None" unfolding m by simp
  finally show ?thesis using len by (simp add: demo_world_old_def)
qed

text \<open>
  C2. saveModel on a path returns, and loadModel on the same path then returns, on any
  trainer, with step, loss_min, log_folder_name, model and optimizer equal to those of
  the trainer that saved.
\<close>

theorem checkpoint_roundtrip:
  "\<exists>w1 t2 w2. saveModel p (t, w) = (Inr True, t, w1)
     \<and> loadModel p (t', w1) = (Inr True, t2, w2)
     \<and> step t2 = step t \<and> loss_min t2 = loss_min t \<and> log_folder_name t2 = log_folder_name t
     \<and> model t2 = model t \<and> optimizer t2 = optimizer t"
  by (simp add: saveModel_returns loadModel_def path_exists_def torch_load_def
      loadSummaryWriter_def model_dict_of_def Let_def)

text \<open>
  An instance: a trainer at step 42 with minimum 3 saves over \<^verbatim>\<open>a.pth\<close>, and a trainer
  of another run loads it.
\<close>

theorem checkpoint_roundtrip_witness:
  "\<exists>w1 t2 w2.
     saveModel ''a.pth'' (demo_trainer \<lparr> step := 42, loss_min := Fin 3 \<rparr>, demo_world_old) =
       (Inr True, demo_trainer \<lparr> step := 42, loss_min := Fin 3 \<rparr>, w1)
     \<and> loadModel ''a.pth'' (init 9 9 ''run2'', w1) = (Inr True, t2, w2)
     \<and> step t2 = 42 \<and> loss_min t2 = Fin 3 \<and> log_folder_name t2 = ''run1''
     \<and> model t2 = 0 \<and> optimizer t2 = optimizer demo_trainer"
  using checkpoint_roundtrip [of "''a.pth''" "demo_trainer \<lparr> step := 42, loss_min := Fin 3 \<rparr>"
      demo_world_old "init 9 9 ''run2''"]
  by (simp add: demo_trainer_def init_def bn_scheduler_init_def init_fields_def Let_def)

text \<open>
  C5. For a constructed trainer the learning-rate multiplier at epoch e is
  max(0.76^(e/21), 0.02) and the batch-norm momentum at epoch e is
  max(0.9 * 0.5^(e/21), 0.01); the multiplier does not increase with the epoch, is never
  below 0.02, and is 1 at epoch 0.
\<close>

theorem schedule_functions:
  "lr_lambda (init net opt0 now) e = max ((76 / 100) powr (real_of_int e / 21)) (2 / 100)
   \<and> bnm_lambda (init net opt0 now) e = max (9 / 10 * (5 / 10) powr (real_of_int e / 21)) (1 / 100)
   \<and> (e1 \<le> e2 \<longrightarrow> lr_lambda (init net opt0 now) e2 \<le> lr_lambda (init net opt0 now) e1)
   \<and> 2 / 100 \<le> lr_lambda (init net opt0 now) e
   \<and> lr_lambda (init net opt0 now) 0 = 1"
  using lr_lambda_antimono [of e1 e2 net opt0 now]
  by (simp add: lr_lambda_init bnm_lambda_init)

text \<open>
  An instance: epochs 0 and 21.
\<close>

theorem schedule_functions_witness:
  "(0::int) \<le> 21 \<and> lr_lambda demo_trainer 21 \<le> lr_lambda demo_trainer 0
   \<and> lr_lambda demo_trainer 21 = 76 / 100 \<and> lr_lambda demo_trainer 0 = 1
   \<and> bnm_lambda demo_trainer 21 = 45 / 100"
  using schedule_functions [of 0 0 "''run1''" 21 0 21]
  by (auto simp: demo_trainer_def)

text \<open>
  C7. A zero-dimensional loss term becomes a one-element tensor with the same element;
  whenever the concatenation of the terms succeeds, the aggregate loss is the sum over
  the named terms of the sum of each term; the concatenation succeeds for every
  non-empty loss map whose terms have at most one dimension; and this sum is the value
  that trainStep logs as \<^verbatim>\<open>Loss/loss_sum\<close> under the current step.
\<close>

theorem aggregate_loss:
  "(shape x = [] \<longrightarrow> shape (at_least_1d x) = [1] \<and> elems (at_least_1d x) = elems x)
   \<and> (losses_tensor_of losses = Inr lt \<longrightarrow>
        torch_sum lt = sum_list (map (\<lambda>kv. torch_sum (snd kv)) losses))
   \<and> (losses \<noteq> [] \<and> (\<forall>kv \<in> set losses. length (shape (snd kv)) \<le> 1) \<longrightarrow>
        (\<exists>lt. losses_tensor_of losses = Inr lt))
   \<and> (summary_writer t = Some d \<and> forward X (model t) (model_bn_momentum t) data = (losses, m1)
        \<and> losses_tensor_of losses = Inr lt \<longrightarrow>
        fst (trainStep X data (t, w)) = Inr True
        \<and> (d, ''Loss/loss_sum'', Num (sum_list (map (\<lambda>kv. torch_sum (snd kv)) losses)), step t)
             \<in> set (scalars (snd (snd (trainStep X data (t, w))))))"
proof -
  have a: "shape x = [] \<longrightarrow> shape (at_least_1d x) = [1] \<and> elems (at_least_1d x) = elems x"
    by (simp add: at_least_1d_def reshape1_def)
  have b: "losses_tensor_of losses = Inr lt \<longrightarrow>
        torch_sum lt = sum_list (map (\<lambda>kv. torch_sum (snd kv)) losses)"
    by (simp add: losses_tensor_of_sum)
  have c: "losses \<noteq> [] \<and> (\<forall>kv \<in> set losses. length (shape (snd kv)) \<le> 1) \<longrightarrow>
        (\<exists>lt. losses_tensor_of losses = Inr lt)"
    using losses_tensor_of_returns [of losses] by blast
  have d: "summary_writer t = Some d \<and> forward X (model t) (model_bn_momentum t) data = (losses, m1)
        \<and> losses_tensor_of losses = Inr lt \<longrightarrow>
        fst (trainStep X data (t, w)) = Inr True
        \<and> (d, ''Loss/loss_sum'', Num (sum_list (map (\<lambda>kv. torch_sum (snd kv)) losses)), step t)
             \<in> set (scalars (snd (snd (trainStep X data (t, w)))))"
  proof (intro impI, elim conjE)
    assume sw: "summary_writer t = Some d"
      and fw: "forward X (model t) (model_bn_momentum t) data = (losses, m1)"
      and lt: "losses_tensor_of losses = Inr lt"
    from losses_tensor_of_sum [OF lt] show "fst (trainStep X data (t, w)) = Inr True
        \<and> (d, ''Loss/loss_sum'', Num (sum_list (map (\<lambda>kv. torch_sum (snd kv)) losses)), step t)
             \<in> set (scalars (snd (snd (trainStep X data (t, w)))))"
      by (simp add: trainStep_returns [OF sw fw lt])
  qed
  from a b c d show ?thesis by (intro conjI)
qed

text \<open>
  An instance: a scalar term 2 and a per-sample term [1, 2, 3] aggregate to 8.
\<close>

theorem aggregate_loss_witness:
  "losses_tensor_of demo_losses = Inr \<lparr> shape = [4], elems = [2, 1, 2, 3] \<rparr>
   \<and> torch_sum \<lparr> shape = [4], elems = [2, 1, 2, 3] \<rparr> = 8
   \<and> sum_list (map (\<lambda>kv. torch_sum (snd kv)) demo_losses) = 8"
  using aggregate_loss [of "\<lparr> shape = [], elems = [2] \<rparr>" demo_losses
      "\<lparr> shape = [4], elems = [2, 1, 2, 3] \<rparr>" demo_trainer "''d''" demo_collab 0 0 demo_world]
  by (simp add: demo_losses_tensor) (simp add: demo_losses_def torch_sum_def)

text \<open>
  C3. A training step that gets to the comparison writes a checkpoint to
  \<^verbatim>\<open>./output/<log_folder_name>/model_best.pth\<close> exactly when the aggregate loss is
  strictly below loss_min, and then loss_min becomes the aggregate; otherwise no file
  operation happens and loss_min stays. For the losses 5, 3, 4, 1 from loss_min =
  infinity the checkpoint is written at the first, second and fourth step and not at
  the third.
\<close>

theorem best_model_tracking:
  "(summary_writer t = Some d \<and> forward X (model t) (model_bn_momentum t) data = (losses, m1)
      \<and> losses_tensor_of losses = Inr lt \<longrightarrow>
    (\<exists>t' w'. trainStep X data (t, w) = (Inr True, t', w')
       \<and> (if float_less (torch_sum lt) (loss_min t)
          then fs_ops w' = fs_ops w @
                 [CreateFileFolder (best_path t), Save (tmp_path (best_path t)),
                  Remove (best_path t), Rename (tmp_path (best_path t)) (best_path t)]
               \<and> (\<exists>c. files w' (best_path t) = Some (Complete c)
                        \<and> md_loss_min c = Fin (torch_sum lt))
               \<and> loss_min t' = Fin (torch_sum lt)
          else fs_ops w' = fs_ops w \<and> files w' = files w \<and> loss_min t' = loss_min t)))
   \<and> best_path t = ''./output/'' @ log_folder_name t @ ''/model_best.pth''
   \<and> map (\<lambda>k. fs_ops (snd (snd (for_data demo_collab (take k [5, 3, 4, 1]) demo_start))))
        [0, 1, 2, 3, 4] =
      (let B = [CreateFileFolder ''./output/run1/model_best.pth'',
                Save ''./output/run1/model_best_tmp.pth'',
                Remove ''./output/run1/model_best.pth'',
                Rename ''./output/run1/model_best_tmp.pth'' ''./output/run1/model_best.pth'']
       in [[], B, B @ B, B @ B, B @ B @ B])
   \<and> map (\<lambda>k. loss_min (fst (snd (for_data demo_collab (take k [5, 3, 4, 1]) demo_start))))
        [0, 1, 2, 3, 4] = [PosInf, Fin 5, Fin 3, Fin 3, Fin 1]"
proof -
  have general: "summary_writer t = Some d
      \<and> forward X (model t) (model_bn_momentum t) data = (losses, m1)
      \<and> losses_tensor_of losses = Inr lt \<longrightarrow>
    (\<exists>t' w'. trainStep X data (t, w) = (Inr True, t', w')
       \<and> (if float_less (torch_sum lt) (loss_min t)
          then fs_ops w' = fs_ops w @
                 [CreateFileFolder (best_path t), Save (tmp_path (best_path t)),
                  Remove (best_path t), Rename (tmp_path (best_path t)) (best_path t)]
               \<and> (\<exists>c. files w' (best_path t) = Some (Complete c)
                        \<and> md_loss_min c = Fin (torch_sum lt))
               \<and> loss_min t' = Fin (torch_sum lt)
          else fs_ops w' = fs_ops w \<and> files w' = files w \<and> loss_min t' = loss_min t))"
  proof (intro impI, elim conjE)
    assume sw: "summary_writer t = Some d"
      and fw: "forward X (model t) (model_bn_momentum t) data = (losses, m1)"
      and lt: "losses_tensor_of losses = Inr lt"
    show "\<exists>t' w'. trainStep X data (t, w) = (Inr True, t', w')
       \<and> (if float_less (torch_sum lt) (loss_min t)
          then fs_ops w' = fs_ops w @
                 [CreateFileFolder (best_path t), Save (tmp_path (best_path t)),
                  Remove (best_path t), Rename (tmp_path (best_path t)) (best_path t)]
               \<and> (\<exists>c. files w' (best_path t) = Some (Complete c)
                        \<and> md_loss_min c = Fin (torch_sum lt))
               \<and> loss_min t' = Fin (torch_sum lt)
          else fs_ops w' = fs_ops w \<and> files w' = files w \<and> loss_min t' = loss_min t)"
      unfolding trainStep_returns [OF sw fw lt]
      by (simp add: model_dict_of_def)
  qed
  have path: "best_path t = ''./output/'' @ log_folder_name t @ ''/model_best.pth''"
    by (simp add: best_path_def)
  from general path demo_best_ops demo_best_min show ?thesis by (intro conjI)
qed

text \<open>
  An instance: a loss of 4 against a minimum of 3 writes nothing.
\<close>

theorem best_model_tracking_witness:
  "\<exists>t' w'. trainStep demo_collab 4 (demo_trainer \<lparr> summary_writer := Some ''d'', loss_min := Fin 3 \<rparr>,
                                     demo_world) = (Inr True, t', w')
     \<and> fs_ops w' = [] \<and> files w' = Map.empty \<and> loss_min t' = Fin 3"
  using best_model_tracking [of "demo_trainer \<lparr> summary_writer := Some ''d'', loss_min := Fin 3 \<rparr>"
      "''d''" demo_collab 4 "[(''loss'', \<lparr> shape = [], elems = [4] \<rparr>)]" 0
      "\<lparr> shape = [1], elems = [4] \<rparr>" demo_world]
  by (simp add: demo_collab_def demo_trainer_fields demo_world_fields losses_tensor_of_def
      torch_cat_def at_least_1d_def reshape1_def torch_sum_def)

text \<open>
  C9. When a step finds a new minimum, the checkpoint at the best destination holds
  the new loss_min, equal to the aggregate of that batch, and the state dict and the
  optimizer state as they were before \<^verbatim>\<open>loss_sum.backward()\<close> and
  \<^verbatim>\<open>self.optimizer.step()\<close> of this batch; the trainer itself ends with the updated
  ones.
\<close>

theorem best_checkpoint_content:
  "summary_writer t = Some d \<and> forward X (model t) (model_bn_momentum t) data = (losses, m1)
     \<and> losses_tensor_of losses = Inr lt \<and> float_less (torch_sum lt) (loss_min t) \<longrightarrow>
   (\<exists>t' w'. trainStep X data (t, w) = (Inr True, t', w')
      \<and> files w' (best_path t) =
          Some (Complete \<lparr> md_model = m1, md_optimizer = optimizer t, md_step = step t,
                           md_loss_min = Fin (torch_sum lt),
                           md_log_folder_name = log_folder_name t \<rparr>)
      \<and> loss_min t' = Fin (torch_sum lt)
      \<and> model t' = fst (backward_step X m1 (optimizer t) data)
      \<and> opt_state (optimizer t') = snd (backward_step X m1 (optimizer t) data))"
proof (intro impI, elim conjE)
  assume sw: "summary_writer t = Some d"
    and fw: "forward X (model t) (model_bn_momentum t) data = (losses, m1)"
    and lt: "losses_tensor_of losses = Inr lt"
    and less: "float_less (torch_sum lt) (loss_min t)"
  show "\<exists>t' w'. trainStep X data (t, w) = (Inr True, t', w')
      \<and> files w' (best_path t) =
          Some (Complete \<lparr> md_model = m1, md_optimizer = optimizer t, md_step = step t,
                           md_loss_min = Fin (torch_sum lt),
                           md_log_folder_name = log_folder_name t \<rparr>)
      \<and> loss_min t' = Fin (torch_sum lt)
      \<and> model t' = fst (backward_step X m1 (optimizer t) data)
      \<and> opt_state (optimizer t') = snd (backward_step X m1 (optimizer t) data)"
    unfolding trainStep_returns [OF sw fw lt]
    using less by (simp add: model_dict_of_def)
qed

text \<open>
  An instance: the first step of the small run saves network state 0 and ends in
  network state 1.
\<close>

theorem best_checkpoint_content_witness:
  "\<exists>t' w'. trainStep demo_collab 5 demo_start = (Inr True, t', w')
      \<and> files w' ''./output/run1/model_best.pth'' =
          Some (Complete \<lparr> md_model = 0, md_optimizer = optimizer demo_trainer, md_step = 0,
                           md_loss_min = Fin 5, md_log_folder_name = ''run1'' \<rparr>)
      \<and> loss_min t' = Fin 5 \<and> model t' = 1"
  using best_checkpoint_content [of "fst demo_start" "''./logs/run1/''" demo_collab 5
      "[(''loss'', \<lparr> shape = [], elems = [5] \<rparr>)]" 0 "\<lparr> shape = [1], elems = [5] \<rparr>"
      "snd demo_start"]
  by (simp add: demo_start_eq demo_collab_def demo_trainer_fields demo_world_fields
      losses_tensor_of_def torch_cat_def at_least_1d_def reshape1_def torch_sum_def best_path_def)
    blast

text \<open>
  C8. trainStep leaves \<^verbatim>\<open>self.step\<close> as it found it, whatever its outcome. The loop of
  train hands each batch to trainStep under the counter as it stands and adds one only
  after that trainStep has returned: a step that raises ends the loop with the counter
  advanced by the number of steps that returned before it; a loop that completes has
  advanced it by the number of batches, and the step indices under which it logged are
  exactly those from the counter at its start up to one before the counter at its end.
\<close>

theorem step_counter_frame:
  "step (fst (snd (trainStep X data (t, w)))) = step t
   \<and> for_data X (data # rest) (t, w) =
       (case trainStep X data (t, w) of
          (Inl e, s1) \<Rightarrow> (Inl e, s1)
        | (Inr b1, t1, w1) \<Rightarrow> for_data X rest (t1 \<lparr> step := step t + 1 \<rparr>, w1))
   \<and> (for_data X ds (t, w) = (Inr b, t', w') \<longrightarrow> step t' = step t + int (length ds))
   \<and> (for_data X ds (t, w) = (Inr b, t', w') \<longrightarrow>
        (\<exists>ext. scalars w' = scalars w @ ext
           \<and> (\<lambda>e. snd (snd (snd e))) ` set ext = {step t ..< step t + int (length ds)}))
   \<and> (for_data X ds (t, w) = (Inl e, t', w') \<longrightarrow>
        (\<exists>k < length ds. \<exists>tk wk. for_data X (take k ds) (t, w) = (Inr True, tk, wk)
            \<and> step tk = step t + int k
            \<and> trainStep X (ds ! k) (tk, wk) = (Inl e, t', w') \<and> step t' = step t + int k))
   \<and> (\<forall>k < length ds. \<forall>tk wk. for_data X (take k ds) (t, w) = (Inr True, tk, wk) \<longrightarrow>
          step tk = step t + int k
          \<and> for_data X (take (Suc k) ds) (t, w) =
              (case trainStep X (ds ! k) (tk, wk) of
                 (Inl e, s1) \<Rightarrow> (Inl e, s1)
               | (Inr b1, t1, w1) \<Rightarrow> (Inr True, t1 \<lparr> step := step tk + 1 \<rparr>, w1)))"
proof -
  have a: "step (fst (snd (trainStep X data (t, w)))) = step t" by (rule trainStep_step)
  have b: "for_data X (data # rest) (t, w) =
       (case trainStep X data (t, w) of
          (Inl e, s1) \<Rightarrow> (Inl e, s1)
        | (Inr b1, t1, w1) \<Rightarrow> for_data X rest (t1 \<lparr> step := step t + 1 \<rparr>, w1))"
    by (rule for_data_Cons_step)
  have c: "for_data X ds (t, w) = (Inr b, t', w') \<longrightarrow> step t' = step t + int (length ds)"
    using for_data_step [of X ds t w b t' w'] by blast
  have d: "for_data X ds (t, w) = (Inr b, t', w') \<longrightarrow>
        (\<exists>ext. scalars w' = scalars w @ ext
           \<and> (\<lambda>e. snd (snd (snd e))) ` set ext = {step t ..< step t + int (length ds)})"
    using for_data_logged_steps [of X ds t w b t' w'] by blast
  have e: "for_data X ds (t, w) = (Inl e, t', w') \<longrightarrow>
        (\<exists>k < length ds. \<exists>tk wk. for_data X (take k ds) (t, w) = (Inr True, tk, wk)
            \<and> step tk = step t + int k
            \<and> trainStep X (ds ! k) (tk, wk) = (Inl e, t', w') \<and> step t' = step t + int k)"
    using for_data_raises [of X ds t w e t' w'] by blast
  have f: "\<forall>k < length ds. \<forall>tk wk. for_data X (take k ds) (t, w) = (Inr True, tk, wk) \<longrightarrow>
          step tk = step t + int k
          \<and> for_data X (take (Suc k) ds) (t, w) =
              (case trainStep X (ds ! k) (tk, wk) of
                 (Inl e, s1) \<Rightarrow> (Inl e, s1)
               | (Inr b1, t1, w1) \<Rightarrow> (Inr True, t1 \<lparr> step := step tk + 1 \<rparr>, w1))"
    using for_data_take_Suc [of _ ds X t w] by blast
  from a b c d e f show ?thesis by (intro conjI)
qed

text \<open>
  An instance: the small run logs its four batches under the steps 0 to 3 and ends at
  4; without a writer the first step raises and the counter stays at 0.
\<close>

theorem step_counter_frame_witness:
  "step (fst (snd (trainStep demo_collab 5 demo_start))) = 0
   \<and> step (fst (snd (for_data demo_collab [5, 3, 4, 1] demo_start))) = 4
   \<and> map (\<lambda>e. snd (snd (snd e))) (scalars (snd (snd (for_data demo_collab [5, 3, 4, 1] demo_start))))
       = [0, 0, 1, 1, 2, 2, 3, 3]
   \<and> for_data demo_collab [5, 3] (demo_trainer, demo_world) =
       (Inl AttributeError, demo_trainer, demo_world)
   \<and> step demo_trainer = 0"
proof -
  let ?t' = "fst (snd (for_data demo_collab [5, 3, 4, 1] demo_start))"
  let ?w' = "snd (snd (for_data demo_collab [5, 3, 4, 1] demo_start))"
  note inst = step_counter_frame [of demo_collab 5 "fst demo_start" "snd demo_start" "[3, 4, 1]"
      "[5, 3, 4, 1]" True ?t' ?w' AttributeError]
  have s0: "step (fst demo_start) = 0" by (simp add: demo_start_eq demo_trainer_fields)
  from inst [THEN conjunct1] s0
  have a: "step (fst (snd (trainStep demo_collab 5 demo_start))) = 0" by simp
  from inst [THEN conjunct2, THEN conjunct2, THEN conjunct1] demo_for_data_ok s0
  have b: "step ?t' = 4" by simp
  have c: "map (\<lambda>e. snd (snd (snd e))) (scalars ?w') = [0, 0, 1, 1, 2, 2, 3, 3]"
    unfolding demo_for_data_scalars by simp
  from a b c demo_raise show ?thesis by (simp add: demo_trainer_fields)
qed




text \<open>
  C10. A constructed trainer has no writer; loadSummaryWriter, and loadModel when it
  returns, set one. Without a writer trainStep raises and writes nothing to the world
  (the error is the AttributeError of the first \<^verbatim>\<open>add_scalar\<close> whenever the loss terms
  concatenate), and train raises that AttributeError at its first statement that logs,
  with trainer and world unchanged.
\<close>

theorem no_default_writer:
  "summary_writer (init net opt0 now) = None
   \<and> (summary_writer t = None \<longrightarrow>
        (\<exists>e t'. trainStep X data (t, w) = (Inl e, t', w) \<and> summary_writer t' = None
           \<and> (\<forall>lt. losses_tensor_of (fst (forward X (model t) (model_bn_momentum t) data)) = Inr lt
                 \<longrightarrow> e = AttributeError)))
   \<and> (summary_writer t = None \<longrightarrow> train X (t, w) = (Inl AttributeError, t, w))
   \<and> summary_writer (fst (loadSummaryWriter (t, w))) = Some (''./logs/'' @ log_folder_name t @ ''/'')
   \<and> (fst (loadModel p (t, w)) = Inr True \<longrightarrow>
        summary_writer (fst (snd (loadModel p (t, w)))) \<noteq> None)"
proof -
  have a: "summary_writer (init net opt0 now) = None"
    by (simp add: init_def bn_scheduler_init_def init_fields_def Let_def)
  have b: "summary_writer t = None \<longrightarrow>
        (\<exists>e t'. trainStep X data (t, w) = (Inl e, t', w) \<and> summary_writer t' = None
           \<and> (\<forall>lt. losses_tensor_of (fst (forward X (model t) (model_bn_momentum t) data)) = Inr lt
                 \<longrightarrow> e = AttributeError))"
  proof
    assume sw: "summary_writer t = None"
    obtain losses m1 where fw: "forward X (model t) (model_bn_momentum t) data = (losses, m1)"
      by (cases "forward X (model t) (model_bn_momentum t) data")
    show "\<exists>e t'. trainStep X data (t, w) = (Inl e, t', w) \<and> summary_writer t' = None
           \<and> (\<forall>lt. losses_tensor_of (fst (forward X (model t) (model_bn_momentum t) data)) = Inr lt
                 \<longrightarrow> e = AttributeError)"
      unfolding trainStep_no_writer [OF sw fw] by (auto simp: sw fw)
  qed
  have c: "summary_writer t = None \<longrightarrow> train X (t, w) = (Inl AttributeError, t, w)"
    by (simp add: train_no_writer)
  have d: "summary_writer (fst (loadSummaryWriter (t, w))) =
      Some (''./logs/'' @ log_folder_name t @ ''/'')"
    by (simp add: loadSummaryWriter_def Let_def)
  have e: "fst (loadModel p (t, w)) = Inr True \<longrightarrow>
        summary_writer (fst (snd (loadModel p (t, w)))) \<noteq> None"
    by (simp add: loadModel_def loadSummaryWriter_def Let_def split: sum.splits)
  from a b c d e show ?thesis by (intro conjI)
qed

text \<open>
  An instance: the constructed trainer of the small run, before any loadModel.
\<close>

theorem no_default_writer_witness:
  "summary_writer demo_trainer = None
   \<and> trainStep demo_collab 5 (demo_trainer, demo_world) = (Inl AttributeError, demo_trainer, demo_world)
   \<and> train demo_collab (demo_trainer, demo_world) = (Inl AttributeError, demo_trainer, demo_world)"
proof -
  have sw: "summary_writer demo_trainer = None" by (simp add: demo_trainer_fields)
  have lt: "losses_tensor_of (fst (forward demo_collab (model demo_trainer)
                (model_bn_momentum demo_trainer) 5)) = Inr \<lparr> shape = [1], elems = [5] \<rparr>"
    by (simp add: demo_collab_def losses_tensor_of_def torch_cat_def at_least_1d_def reshape1_def)
  note inst = no_default_writer [of 0 0 "''run1''" demo_trainer demo_collab 5 demo_world
      "''missing.pth''"]
  from inst sw
  have tr: "train demo_collab (demo_trainer, demo_world) = (Inl AttributeError, demo_trainer, demo_world)"
    by blast
  from inst sw
  have ts: "\<exists>e t'. trainStep demo_collab 5 (demo_trainer, demo_world) = (Inl e, t', demo_world)
           \<and> summary_writer t' = None
           \<and> (\<forall>lt. losses_tensor_of (fst (forward demo_collab (model demo_trainer)
                (model_bn_momentum demo_trainer) 5)) = Inr lt \<longrightarrow> e = AttributeError)"
    by blast
  from ts lt obtain t' where t': "trainStep demo_collab 5 (demo_trainer, demo_world) =
      (Inl AttributeError, t', demo_world)" by blast
  have fw: "forward demo_collab (model demo_trainer) (model_bn_momentum demo_trainer) 5 =
      ([(''loss'', \<lparr> shape = [], elems = [5] \<rparr>)], model demo_trainer)"
    by (simp add: demo_collab_def)
  from t' have "t' = demo_trainer"
    unfolding trainStep_no_writer [OF sw fw] by simp
  with t' sw tr show ?thesis by simp
qed

text \<open>
  C6. In an epoch of train that completes: the loop over the batches runs from the
  state in which the epoch began (after its one \<^verbatim>\<open>Lr/lr\<close> entry); each batch is handed
  to trainStep in a state whose learning rate, batch-norm momentum and scheduler
  counters are those of the start of the epoch; the trainer at the end of the epoch is
  the trainer after the last batch with first the learning-rate scheduler and then the
  batch-norm scheduler stepped once; saveModel on the last destination runs on that
  trainer and its file-system calls come after all those of the batches; the epoch adds
  exactly one \<^verbatim>\<open>Lr/lr\<close> entry to the log, the learning rate of its batches, under the
  step index at which the epoch began; and train goes on to the next epoch from there.
\<close>

theorem epoch_ordering:
  assumes run: "train_epoch X batches (t, w) = (Inr b, t', w')"
  shows "\<exists>d tn wn. summary_writer t = Some d
    \<and> for_data X batches
          (t, w \<lparr> scalars := scalars w @
                     [(d, ''Lr/lr'', Num (opt_lr (optimizer t)), step t)] \<rparr>) = (Inr True, tn, wn)
    \<and> t' = bn_scheduler_step (scheduler_step tn)
    \<and> saveModel (last_path t') (t', wn) = (Inr True, t', w')
    \<and> fs_ops w' = fs_ops wn @ [CreateFileFolder (last_path t), Save (tmp_path (last_path t)),
                                 Remove (last_path t), Rename (tmp_path (last_path t)) (last_path t)]
    \<and> (\<forall>k < length batches.
         \<exists>tk wk b1 t1 w1.
           for_data X (take k batches)
             (t, w \<lparr> scalars := scalars w @
                        [(d, ''Lr/lr'', Num (opt_lr (optimizer t)), step t)] \<rparr>) = (Inr True, tk, wk)
           \<and> opt_lr (optimizer tk) = opt_lr (optimizer t)
           \<and> model_bn_momentum tk = model_bn_momentum t
           \<and> scheduler_last_epoch tk = scheduler_last_epoch t
           \<and> bn_scheduler_last_epoch tk = bn_scheduler_last_epoch t
           \<and> trainStep X (batches ! k) (tk, wk) = (Inr b1, t1, w1)
           \<and> for_data X (take (Suc k) batches)
               (t, w \<lparr> scalars := scalars w @
                          [(d, ''Lr/lr'', Num (opt_lr (optimizer t)), step t)] \<rparr>) =
              (Inr True, t1 \<lparr> step := step tk + 1 \<rparr>, w1))
    \<and> (\<forall>k \<le> length batches.
         \<exists>tk wk. for_data X (take k batches)
                   (t, w \<lparr> scalars := scalars w @
                              [(d, ''Lr/lr'', Num (opt_lr (optimizer t)), step t)] \<rparr>) =
                 (Inr True, tk, wk)
           \<and> opt_lr (optimizer tk) = opt_lr (optimizer t)
           \<and> model_bn_momentum tk = model_bn_momentum t)
    \<and> opt_lr (optimizer t') = lr t * lr_lambda t (scheduler_last_epoch t + 1)
    \<and> model_bn_momentum t' = bnm_lambda t (bn_scheduler_last_epoch t + 1)
    \<and> scheduler_last_epoch t' = scheduler_last_epoch t + 1
    \<and> bn_scheduler_last_epoch t' = bn_scheduler_last_epoch t + 1
    \<and> step t' = step t + int (length batches)
    \<and> files w' (last_path t) = Some (Complete (model_dict_of t'))
    \<and> filter (\<lambda>e. fst (snd e) = ''Lr/lr'') (drop (length (scalars w)) (scalars w')) =
        [(d, ''Lr/lr'', Num (opt_lr (optimizer t)), step t)]
    \<and> (batches = dataloader X epoch \<longrightarrow>
         train_from X (Suc n) epoch (t, w) = train_from X n (Suc epoch) (t', w'))"
proof -
  from train_epoch_unfold [OF run] obtain d b2 t2 w2 where
    sw: "summary_writer t = Some d"
    and fd: "for_data X batches
          (t, w \<lparr> scalars := scalars w @ [(d, ''Lr/lr'', Num (opt_lr (optimizer t)), step t)] \<rparr>) =
        (Inr b2, t2, w2)"
    and t': "t' = bn_scheduler_step (scheduler_step t2)"
    and w': "w' = w2 \<lparr> files := ((files w2)(tmp_path (last_path t') := None))
                            (last_path t' \<mapsto> Complete (model_dict_of t')),
                  fs_ops := fs_ops w2 @ [CreateFileFolder (last_path t'),
                     Save (tmp_path (last_path t')), Remove (last_path t'),
                     Rename (tmp_path (last_path t')) (last_path t')] \<rparr>"
    by blast
  let ?w1 = "w \<lparr> scalars := scalars w @ [(d, ''Lr/lr'', Num (opt_lr (optimizer t)), step t)] \<rparr>"
  have same2: "same_schedule t t2"
    using for_data_same_schedule [of t X batches ?w1] fd by simp
  have prefixes: "\<forall>k \<le> length batches.
         \<exists>tk wk. for_data X (take k batches) (t, ?w1) = (Inr True, tk, wk)
           \<and> opt_lr (optimizer tk) = opt_lr (optimizer t)
           \<and> model_bn_momentum tk = model_bn_momentum t"
  proof (intro allI impI)
    fix k assume k: "k \<le> length batches"
    from fd have "fst (for_data X batches (t, ?w1)) = Inr b2" by simp
    from for_data_prefix [OF this k]
    have ok: "fst (for_data X (take k batches) (t, ?w1)) = Inr True" .
    have "same_schedule t (fst (snd (for_data X (take k batches) (t, ?w1))))"
      by (rule for_data_same_schedule)
    then have "opt_lr (optimizer (fst (snd (for_data X (take k batches) (t, ?w1))))) =
          opt_lr (optimizer t)
        \<and> model_bn_momentum (fst (snd (for_data X (take k batches) (t, ?w1)))) =
          model_bn_momentum t"
      by (simp add: same_schedule_def)
    with ok show "\<exists>tk wk. for_data X (take k batches) (t, ?w1) = (Inr True, tk, wk)
           \<and> opt_lr (optimizer tk) = opt_lr (optimizer t)
           \<and> model_bn_momentum tk = model_bn_momentum t"
      by (cases "for_data X (take k batches) (t, ?w1)") auto
  qed
  have lr': "opt_lr (optimizer t') = lr t * lr_lambda t (scheduler_last_epoch t + 1)"
  proof -
    have "opt_lr (optimizer t') = lr t2 * lr_lambda t2 (scheduler_last_epoch t2 + 1)"
      by (simp add: t' bn_scheduler_step_def scheduler_step_def Let_def)
    with same2 show ?thesis by (simp add: same_schedule_def)
  qed
  have bn': "model_bn_momentum t' = bnm_lambda t (bn_scheduler_last_epoch t + 1)"
  proof -
    have "model_bn_momentum t' =
        bnm_lambda (scheduler_step t2) (bn_scheduler_last_epoch (scheduler_step t2) + 1)"
      by (simp add: t' bn_scheduler_step_def Let_def)
    moreover have "bnm_lambda (scheduler_step t2) = bnm_lambda t2"
      by (simp add: fun_eq_iff bnm_lambda_def scheduler_step_def Let_def)
    moreover have "bn_scheduler_last_epoch (scheduler_step t2) = bn_scheduler_last_epoch t2"
      by (simp add: scheduler_step_def Let_def)
    ultimately show ?thesis using same2 by (simp add: same_schedule_def)
  qed
  have cnt: "scheduler_last_epoch t' = scheduler_last_epoch t + 1"
    "bn_scheduler_last_epoch t' = bn_scheduler_last_epoch t + 1"
    using same2 by (simp_all add: t' bn_scheduler_step_def scheduler_step_def Let_def
        same_schedule_def)
  have st: "step t' = step t + int (length batches)"
    using for_data_step [OF fd]
    by (simp add: t' bn_scheduler_step_def scheduler_step_def Let_def)
  have lp: "last_path t' = last_path t"
    using same2 by (simp add: t' last_path_def bn_scheduler_step_def scheduler_step_def Let_def
        same_schedule_def)
  have fl: "files w' (last_path t) = Some (Complete (model_dict_of t'))"
    by (subst w') (simp add: lp)
  from for_data_scalars [of X batches t ?w1] fd
  obtain ext where ext: "scalars w2 = scalars ?w1 @ ext"
    "filter (\<lambda>e. fst (snd e) = ''Lr/lr'') ext = []" by auto
  have "scalars w' = scalars w2" by (subst w') simp
  with ext have sc: "filter (\<lambda>e. fst (snd e) = ''Lr/lr'') (drop (length (scalars w)) (scalars w')) =
        [(d, ''Lr/lr'', Num (opt_lr (optimizer t)), step t)]"
    by simp
  have nxt: "batches = dataloader X epoch \<longrightarrow>
         train_from X (Suc n) epoch (t, w) = train_from X n (Suc epoch) (t', w')"
    using run by auto
  from for_data_result [of X batches "(t, ?w1)" b2] fd
  have fd': "for_data X batches (t, ?w1) = (Inr True, t2, w2)" by simp
  have sv: "saveModel (last_path t') (t', w2) = (Inr True, t', w')"
    by (subst w') (simp add: saveModel_returns)
  have ops: "fs_ops w' = fs_ops w2 @ [CreateFileFolder (last_path t), Save (tmp_path (last_path t)),
                                 Remove (last_path t), Rename (tmp_path (last_path t)) (last_path t)]"
    by (subst w') (simp add: lp)
  have each: "\<forall>k < length batches.
         \<exists>tk wk b1 t1 w1.
           for_data X (take k batches) (t, ?w1) = (Inr True, tk, wk)
           \<and> opt_lr (optimizer tk) = opt_lr (optimizer t)
           \<and> model_bn_momentum tk = model_bn_momentum t
           \<and> scheduler_last_epoch tk = scheduler_last_epoch t
           \<and> bn_scheduler_last_epoch tk = bn_scheduler_last_epoch t
           \<and> trainStep X (batches ! k) (tk, wk) = (Inr b1, t1, w1)
           \<and> for_data X (take (Suc k) batches) (t, ?w1) =
              (Inr True, t1 \<lparr> step := step tk + 1 \<rparr>, w1)"
  proof (intro allI impI)
    fix k assume k: "k < length batches"
    from fd have ok: "fst (for_data X batches (t, ?w1)) = Inr b2" by simp
    from k have k1: "k \<le> length batches" and k2: "Suc k \<le> length batches" by simp_all
    obtain r tk wk where pk: "for_data X (take k batches) (t, ?w1) = (r, tk, wk)"
      by (cases "for_data X (take k batches) (t, ?w1)") auto
    with for_data_prefix [OF ok k1] have pk': "for_data X (take k batches) (t, ?w1) = (Inr True, tk, wk)"
      by simp
    have "same_schedule t (fst (snd (for_data X (take k batches) (t, ?w1))))"
      by (rule for_data_same_schedule)
    with pk' have same: "opt_lr (optimizer tk) = opt_lr (optimizer t)"
      "model_bn_momentum tk = model_bn_momentum t"
      "scheduler_last_epoch tk = scheduler_last_epoch t"
      "bn_scheduler_last_epoch tk = bn_scheduler_last_epoch t"
      by (simp_all add: same_schedule_def)
    from for_data_take_Suc [OF k pk']
    have nxt: "for_data X (take (Suc k) batches) (t, ?w1) =
        (case trainStep X (batches ! k) (tk, wk) of
           (Inl e, s1) \<Rightarrow> (Inl e, s1)
         | (Inr b1, t1, w1) \<Rightarrow> (Inr True, t1 \<lparr> step := step tk + 1 \<rparr>, w1))"
      by blast
    obtain r1 t1 w1 where ts: "trainStep X (batches ! k) (tk, wk) = (r1, t1, w1)"
      by (cases "trainStep X (batches ! k) (tk, wk)") auto
    from for_data_prefix [OF ok k2] nxt ts obtain b1 where r1: "r1 = Inr b1"
      by (cases r1) auto
    with nxt ts have "for_data X (take (Suc k) batches) (t, ?w1) =
        (Inr True, t1 \<lparr> step := step tk + 1 \<rparr>, w1)" by simp
    with pk' same ts r1
    show "\<exists>tk wk b1 t1 w1.
           for_data X (take k batches) (t, ?w1) = (Inr True, tk, wk)
           \<and> opt_lr (optimizer tk) = opt_lr (optimizer t)
           \<and> model_bn_momentum tk = model_bn_momentum t
           \<and> scheduler_last_epoch tk = scheduler_last_epoch t
           \<and> bn_scheduler_last_epoch tk = bn_scheduler_last_epoch t
           \<and> trainStep X (batches ! k) (tk, wk) = (Inr b1, t1, w1)
           \<and> for_data X (take (Suc k) batches) (t, ?w1) =
              (Inr True, t1 \<lparr> step := step tk + 1 \<rparr>, w1)"
      by blast
  qed
  from sw fd' t' sv ops each prefixes lr' bn' cnt st fl sc nxt show ?thesis by blast
qed

text \<open>
  An instance: an epoch of two batches from the cold start of the small run. Both
  batches find a new minimum, so the best checkpoint is written twice and then the last
  one; the network has taken two updates and both schedulers stand at epoch 1.
\<close>

theorem epoch_ordering_witness:
  "step (fst (snd (train_epoch demo_collab [5, 3] demo_start))) = 2
   \<and> scheduler_last_epoch (fst (snd (train_epoch demo_collab [5, 3] demo_start))) = 1
   \<and> bn_scheduler_last_epoch (fst (snd (train_epoch demo_collab [5, 3] demo_start))) = 1
   \<and> opt_lr (optimizer (fst (snd (train_epoch demo_collab [5, 3] demo_start)))) =
       lr demo_trainer * lr_lambda demo_trainer 1
   \<and> filter (\<lambda>e. fst (snd e) = ''Lr/lr'')
        (scalars (snd (snd (train_epoch demo_collab [5, 3] demo_start)))) =
       [(''./logs/run1/'', ''Lr/lr'', Num (5 / 10000), 0)]
   \<and> fst (snd (train_epoch demo_collab [5, 3] demo_start)) =
       bn_scheduler_step (scheduler_step
         (fst (snd (for_data demo_collab [5, 3]
            (fst demo_start,
             (snd demo_start) \<lparr> scalars := [(''./logs/run1/'', ''Lr/lr'', Num (5 / 10000), 0)] \<rparr>)))))
   \<and> model (fst (snd (train_epoch demo_collab [5, 3] demo_start))) = 2
   \<and> fs_ops (snd (snd (train_epoch demo_collab [5, 3] demo_start))) =
     [CreateFileFolder ''./output/run1/model_best.pth'', Save ''./output/run1/model_best_tmp.pth'',
      Remove ''./output/run1/model_best.pth'',
      Rename ''./output/run1/model_best_tmp.pth'' ''./output/run1/model_best.pth'',
      CreateFileFolder ''./output/run1/model_best.pth'', Save ''./output/run1/model_best_tmp.pth'',
      Remove ''./output/run1/model_best.pth'',
      Rename ''./output/run1/model_best_tmp.pth'' ''./output/run1/model_best.pth'',
      CreateFileFolder ''./output/run1/model_last.pth'', Save ''./output/run1/model_last_tmp.pth'',
      Remove ''./output/run1/model_last.pth'',
      Rename ''./output/run1/model_last_tmp.pth'' ''./output/run1/model_last.pth'']"
proof -
  let ?t' = "fst (snd (train_epoch demo_collab [5, 3] demo_start))"
  let ?w' = "snd (snd (train_epoch demo_collab [5, 3] demo_start))"
  from epoch_ordering [OF demo_epoch_ok] obtain d tn wn where
    d: "summary_writer (fst demo_start) = Some d"
    and fd: "for_data demo_collab [5, 3]
          (fst demo_start, (snd demo_start) \<lparr> scalars := scalars (snd demo_start) @
             [(d, ''Lr/lr'', Num (opt_lr (optimizer (fst demo_start))), step (fst demo_start))] \<rparr>) =
          (Inr True, tn, wn)"
    and t': "?t' = bn_scheduler_step (scheduler_step tn)"
    and lr: "opt_lr (optimizer ?t') =
       lr (fst demo_start) * lr_lambda (fst demo_start) (scheduler_last_epoch (fst demo_start) + 1)"
    and cnt: "scheduler_last_epoch ?t' = scheduler_last_epoch (fst demo_start) + 1"
       "bn_scheduler_last_epoch ?t' = bn_scheduler_last_epoch (fst demo_start) + 1"
    and st: "step ?t' = step (fst demo_start) + int (length [5, 3 :: real])"
    and sc: "filter (\<lambda>e. fst (snd e) = ''Lr/lr'')
         (drop (length (scalars (snd demo_start))) (scalars ?w')) =
        [(d, ''Lr/lr'', Num (opt_lr (optimizer (fst demo_start))), step (fst demo_start))]"
    by blast
  from d have d': "d = ''./logs/run1/''" by (simp add: demo_start_eq)
  have l: "lr_lambda (fst demo_start) = lr_lambda demo_trainer"
    by (simp add: demo_start_eq lr_lambda_def fun_eq_iff)
  have bn0: "bn_scheduler_last_epoch demo_trainer = 0"
    by (simp add: demo_trainer_def init_def bn_scheduler_init_def init_fields_def Let_def)
  have w1: "(snd demo_start) \<lparr> scalars := scalars (snd demo_start) @
             [(d, ''Lr/lr'', Num (opt_lr (optimizer (fst demo_start))), step (fst demo_start))] \<rparr> =
            (snd demo_start) \<lparr> scalars := [(''./logs/run1/'', ''Lr/lr'', Num (5 / 10000), 0)] \<rparr>"
    by (simp add: d' demo_start_eq demo_trainer_fields demo_trainer_lr demo_world_fields)
  from fd have tn: "tn = fst (snd (for_data demo_collab [5, 3]
            (fst demo_start,
             (snd demo_start) \<lparr> scalars := [(''./logs/run1/'', ''Lr/lr'', Num (5 / 10000), 0)] \<rparr>)))"
    unfolding w1 by simp
  have ord: "?t' = bn_scheduler_step (scheduler_step
         (fst (snd (for_data demo_collab [5, 3]
            (fst demo_start,
             (snd demo_start) \<lparr> scalars := [(''./logs/run1/'', ''Lr/lr'', Num (5 / 10000), 0)] \<rparr>)))))"
    using t' tn by simp
  have m: "model ?t' = 2"
    by (subst ord) (simp add: demo_start_eq demo_trainStep bn_scheduler_step_def scheduler_step_def
        Let_def demo_trainer_fields)
  have first: "step ?t' = 2 \<and> scheduler_last_epoch ?t' = 1 \<and> bn_scheduler_last_epoch ?t' = 1
      \<and> opt_lr (optimizer ?t') = lr demo_trainer * lr_lambda demo_trainer 1
      \<and> filter (\<lambda>e. fst (snd e) = ''Lr/lr'') (scalars ?w') =
          [(''./logs/run1/'', ''Lr/lr'', Num (5 / 10000), 0)]"
    using lr cnt st sc d' l bn0
    by (simp add: demo_start_eq demo_trainer_fields demo_trainer_lr demo_world_fields)
  from first ord m demo_epoch_ops show ?thesis by (intro conjI) (elim conjE, assumption)+
qed

end
